theory Spec2Isabelle
  imports Main "HOL-Library.Sublist"
begin

section \<open>Documents and Python values\<close>

text \<open>
  The handlers of \<^verbatim>\<open>server.py\<close> exchange JSON-like values with the document store.
  A document (a Python \<^verbatim>\<open>dict\<close> with string keys) is a map from keys to values.
  Every query of the source projects the store's own \<^verbatim>\<open>_id\<close> key away
  (\<^verbatim>\<open>{"_id": 0}\<close>) and no filter or update names it, so documents are modelled
  without it. A JSON integer is unbounded, as Python's \<^verbatim>\<open>int\<close> is. A floating-point number
  is a value of the type \<open>float64\<close>, of which nothing is known here: no operation of the
  handlers inspects one.
\<close>

typedecl float64

datatype json =
    JNull
  | JBool bool
  | JInt int
  | JFloat float64
  | JStr string
  | JList "json list"
  | JObj "string \<Rightarrow> json option"

type_synonym doc = "string \<Rightarrow> json option"

text \<open>
  Everything a handler can raise: \<^verbatim>\<open>HTTPException(status_code, detail)\<close>, the Python
  exceptions of dictionary and attribute access, a pydantic validation error, a write
  error reported by the store, and the errors of the driver when it cannot encode a value
  as BSON (\<^verbatim>\<open>OverflowError\<close> for an integer outside signed 64 bits, \<^verbatim>\<open>InvalidDocument\<close> for
  a key or a string it cannot write, \<^verbatim>\<open>DocumentTooLarge\<close> for a payload beyond the size
  limit).
\<close>

datatype error =
    HTTPException nat string
  | KeyError string
  | TypeError
  | AttributeError
  | ValidationError
  | WriteError
  | OverflowError
  | InvalidDocument
  | DocumentTooLarge

definition bind_err :: "error + 'a \<Rightarrow> ('a \<Rightarrow> error + 'b) \<Rightarrow> error + 'b" where
  "bind_err r f = (case r of Inl e \<Rightarrow> Inl e | Inr x \<Rightarrow> f x)"

text \<open>\<^verbatim>\<open>d.get(k, default)\<close> on a dictionary.\<close>

definition dict_get :: "doc \<Rightarrow> string \<Rightarrow> json \<Rightarrow> json" where
  "dict_get d k dflt = (case d k of None \<Rightarrow> dflt | Some v \<Rightarrow> v)"

text \<open>\<^verbatim>\<open>v.get(k, default)\<close> on an arbitrary value: only a dictionary has \<^verbatim>\<open>get\<close>.\<close>

definition attr_get :: "json \<Rightarrow> string \<Rightarrow> json \<Rightarrow> error + json" where
  "attr_get v k dflt = (case v of JObj d \<Rightarrow> Inr (dict_get d k dflt) | _ \<Rightarrow> Inl AttributeError)"

text \<open>
  \<^verbatim>\<open>s in v\<close> for a string \<open>s\<close>: membership in a list, substring of a string, key of a
  dictionary, and a \<^verbatim>\<open>TypeError\<close> on the values that are not iterable.
\<close>

fun py_in :: "string \<Rightarrow> json \<Rightarrow> error + bool" where
  "py_in s (JList xs) = Inr (JStr s \<in> set xs)"
| "py_in s (JStr t) = Inr (sublist s t)"
| "py_in s (JObj d) = Inr (d s \<noteq> None)"
| "py_in s JNull = Inl TypeError"
| "py_in s (JBool b) = Inl TypeError"
| "py_in s (JInt i) = Inl TypeError"
| "py_in s (JFloat x) = Inl TypeError"

section \<open>The document store\<close>

text \<open>
  A collection is the list of its documents in natural order. The filters of the source
  are conjunctions of equalities between a field and a string; the store matches such an
  equality when the field holds that string or an array containing it.
\<close>

type_synonym query = "(string \<times> string) list"

definition field_matches :: "json option \<Rightarrow> string \<Rightarrow> bool" where
  "field_matches f s =
     (case f of
        Some (JStr t) \<Rightarrow> t = s
      | Some (JList xs) \<Rightarrow> JStr s \<in> set xs
      | _ \<Rightarrow> False)"

definition matches :: "query \<Rightarrow> doc \<Rightarrow> bool" where
  "matches q d = list_all (\<lambda>(k, s). field_matches (d k) s) q"

definition find_one :: "query \<Rightarrow> doc list \<Rightarrow> doc option" where
  "find_one q coll = List.find (matches q) coll"

definition find_many :: "query \<Rightarrow> doc list \<Rightarrow> doc list" where
  "find_many q coll = filter (matches q) coll"

definition insert_one :: "doc \<Rightarrow> doc list \<Rightarrow> doc list" where
  "insert_one d coll = coll @ [d]"

fun delete_one :: "query \<Rightarrow> doc list \<Rightarrow> doc list" where
  "delete_one q [] = []"
| "delete_one q (d # ds) = (if matches q d then ds else d # delete_one q ds)"

definition delete_many :: "query \<Rightarrow> doc list \<Rightarrow> doc list" where
  "delete_many q coll = filter (\<lambda>d. \<not> matches q d) coll"

text \<open>
  \<^verbatim>\<open>update_one\<close> applies the update to the first matching document and reports the
  matched count; an update that the store rejects changes nothing.
\<close>

fun update_one :: "query \<Rightarrow> (doc \<Rightarrow> error + doc) \<Rightarrow> doc list \<Rightarrow> error + nat \<times> doc list" where
  "update_one q upd [] = Inr (0, [])"
| "update_one q upd (d # ds) =
     (if matches q d
      then (case upd d of Inl e \<Rightarrow> Inl e | Inr d' \<Rightarrow> Inr (1, d' # ds))
      else (case update_one q upd ds of
              Inl e \<Rightarrow> Inl e
            | Inr (n, ds') \<Rightarrow> Inr (n, d # ds')))"

text \<open>
  The update operators on one top-level field. \<^verbatim>\<open>$push\<close> appends to an array and creates
  it when the field is absent; \<^verbatim>\<open>$pull\<close> removes the elements that satisfy its condition
  and does nothing when the field is absent; both are rejected on a field that is not an
  array. \<^verbatim>\<open>$set\<close> stores the value.
\<close>

definition op_push :: "string \<Rightarrow> json \<Rightarrow> doc \<Rightarrow> error + doc" where
  "op_push k v d =
     (case d k of
        None \<Rightarrow> Inr (d(k \<mapsto> JList [v]))
      | Some (JList xs) \<Rightarrow> Inr (d(k \<mapsto> JList (xs @ [v])))
      | Some _ \<Rightarrow> Inl WriteError)"

definition op_pull :: "string \<Rightarrow> (json \<Rightarrow> bool) \<Rightarrow> doc \<Rightarrow> error + doc" where
  "op_pull k cond d =
     (case d k of
        None \<Rightarrow> Inr d
      | Some (JList xs) \<Rightarrow> Inr (d(k \<mapsto> JList (filter (\<lambda>x. \<not> cond x) xs)))
      | Some _ \<Rightarrow> Inl WriteError)"

definition op_set :: "string \<Rightarrow> json \<Rightarrow> doc \<Rightarrow> error + doc" where
  "op_set k v d = Inr (d(k \<mapsto> v))"

text \<open>The condition of \<^verbatim>\<open>$pull\<close> with a plain value: the elements equal to it.\<close>

definition pull_value :: "json \<Rightarrow> json \<Rightarrow> bool" where
  "pull_value v x = (x = v)"

text \<open>The condition of \<^verbatim>\<open>$pull\<close> with a filter: the embedded documents it matches.\<close>

definition pull_query :: "query \<Rightarrow> json \<Rightarrow> bool" where
  "pull_query q x = (case x of JObj d \<Rightarrow> matches q d | _ \<Rightarrow> False)"

text \<open>
  Inclusion projections. A path \<^verbatim>\<open>a.b\<close> keeps field \<open>b\<close> of the embedded document \<open>a\<close>,
  descends into the documents of an array, and drops \<open>a\<close> when it holds a scalar.
\<close>

datatype proj = Incl | Sub "(string \<times> proj) list"

primrec project_value :: "json \<Rightarrow> (string \<times> proj) list \<Rightarrow> json option" where
  "project_value JNull sub = None"
| "project_value (JBool b) sub = None"
| "project_value (JInt i) sub = None"
| "project_value (JFloat x) sub = None"
| "project_value (JStr s) sub = None"
| "project_value (JList xs) sub =
     Some (JList (List.map_filter (\<lambda>f. f sub) (map project_value xs)))"
| "project_value (JObj d) sub =
     Some (JObj (\<lambda>k. case map_of sub k of
                        None \<Rightarrow> None
                      | Some Incl \<Rightarrow> d k
                      | Some (Sub s) \<Rightarrow>
                          (case map_option project_value (d k) of
                             None \<Rightarrow> None
                           | Some f \<Rightarrow> f s)))"

definition project :: "(string \<times> proj) list \<Rightarrow> doc \<Rightarrow> doc" where
  "project spec d =
     (\<lambda>k. case map_of spec k of
             None \<Rightarrow> None
           | Some Incl \<Rightarrow> d k
           | Some (Sub s) \<Rightarrow> (case d k of None \<Rightarrow> None | Some v \<Rightarrow> project_value v s))"

text \<open>
  Before an update is sent, the driver encodes its payload as BSON and raises when it
  cannot; nothing is written then, whether or not a document would have matched. Which
  payloads the driver refuses, and with which error, is a parameter \<open>encode_error\<close> of
  the handlers that store a payload of the client's: \<open>None\<close> when the value is encoded.
  The driver in use refuses at least the integers outside signed 64 bits; an encoder that
  refuses exactly those is \<open>int64_error\<close>.
\<close>

primrec holds_big_int :: "json \<Rightarrow> bool" where
  "holds_big_int JNull = False"
| "holds_big_int (JBool b) = False"
| "holds_big_int (JInt i) = (i < - (2 ^ 63) \<or> 2 ^ 63 \<le> i)"
| "holds_big_int (JFloat x) = False"
| "holds_big_int (JStr s) = False"
| "holds_big_int (JList xs) = list_ex (\<lambda>b. b) (map holds_big_int xs)"
| "holds_big_int (JObj d) =
     (\<exists>k. case map_option holds_big_int (d k) of None \<Rightarrow> False | Some b \<Rightarrow> b)"

definition int64_error :: "json \<Rightarrow> error option" where
  "int64_error v = (if holds_big_int v then Some OverflowError else None)"

text \<open>The six collections behind the global \<^verbatim>\<open>db\<close> handle.\<close>

record db =
  characters :: "doc list"
  rolls :: "doc list"
  threats :: "doc list"
  campaigns :: "doc list"
  campaign_characters :: "doc list"
  campaign_rolls :: "doc list"

section \<open>Request models\<close>

record CampaignCreate =
  name :: string
  description :: string
  masterId :: string
  masterName :: string
  masterEmail :: string

record JoinCampaignRequest =
  inviteCode :: string
  odiserId :: string
  odiserName :: string
  odiserEmail :: string
  characterId :: string

text \<open>
  The values a handler draws from outside: \<^verbatim>\<open>uuid.uuid4()\<close> and the successive readings
  of \<^verbatim>\<open>datetime.now\<close>. They are arguments of the model, one per call in the source.
\<close>

record join_env =
  cc_id :: string
  cc_createdAt :: string
  cc_updatedAt :: string
  player_joinedAt :: string
  campaign_updatedAt :: string

section \<open>Handlers\<close>

text \<open>
  A handler is modelled from its arguments to the value it returns or the exception it
  raises, together with the store it leaves; the rendering of either as an HTTP response
  is outside the model.
\<close>

subsection \<open>\<^verbatim>\<open>update_character\<close>\<close>

text \<open>
  The payload of \<^verbatim>\<open>$set\<close> is chosen by the client and may name nested paths; what the
  store does with it on one document is the parameter \<open>store_set\<close>, and what the driver
  refuses to encode is the parameter \<open>encode_error\<close>.
\<close>

definition update_character ::
  "(json \<Rightarrow> error option) \<Rightarrow> (doc \<Rightarrow> doc \<Rightarrow> error + doc) \<Rightarrow> string \<Rightarrow> string \<Rightarrow> doc \<Rightarrow> db
     \<Rightarrow> (error + json) \<times> db" where
  "update_character encode_error store_set now character_id update_data db =
     (let update_data' = update_data(''updatedAt'' \<mapsto> JStr now) in
      case encode_error (JObj update_data') of
        Some e \<Rightarrow> (Inl e, db)
      | None \<Rightarrow>
         (case update_one [(''id'', character_id)] (store_set update_data') (characters db) of
            Inl e \<Rightarrow> (Inl e, db)
          | Inr (matched_count, cs) \<Rightarrow>
              (let db' = db\<lparr>characters := cs\<rparr> in
               if matched_count = 0 then (Inl (HTTPException 404 ''Character not found''), db')
               else (Inr (case find_one [(''id'', character_id)] cs of
                            None \<Rightarrow> JNull
                          | Some character \<Rightarrow> JObj character), db'))))"

subsection \<open>\<^verbatim>\<open>create_campaign\<close>\<close>

definition campaign_dump :: "string \<Rightarrow> string \<Rightarrow> string \<Rightarrow> string \<Rightarrow> CampaignCreate \<Rightarrow> doc" where
  "campaign_dump new_id invite_code created_at updated_at input_data =
     [''id'' \<mapsto> JStr new_id,
      ''name'' \<mapsto> JStr (name input_data),
      ''description'' \<mapsto> JStr (description input_data),
      ''masterId'' \<mapsto> JStr (masterId input_data),
      ''masterName'' \<mapsto> JStr (masterName input_data),
      ''masterEmail'' \<mapsto> JStr (masterEmail input_data),
      ''inviteCode'' \<mapsto> JStr invite_code,
      ''players'' \<mapsto> JList [],
      ''playerIds'' \<mapsto> JList [],
      ''createdAt'' \<mapsto> JStr created_at,
      ''updatedAt'' \<mapsto> JStr updated_at]"

definition create_campaign ::
  "string \<Rightarrow> string \<Rightarrow> string \<Rightarrow> string \<Rightarrow> CampaignCreate \<Rightarrow> db \<Rightarrow> (error + json) \<times> db" where
  "create_campaign new_id invite_code created_at updated_at input_data db =
     (let campaign = campaign_dump new_id invite_code created_at updated_at input_data in
      (Inr (JObj campaign), db\<lparr>campaigns := insert_one campaign (campaigns db)\<rparr>))"

subsection \<open>\<^verbatim>\<open>delete_campaign\<close>\<close>

definition delete_campaign :: "string \<Rightarrow> string \<Rightarrow> db \<Rightarrow> (error + json) \<times> db" where
  "delete_campaign campaign_id master_id db =
     (case find_one [(''id'', campaign_id)] (campaigns db) of
        None \<Rightarrow> (Inl (HTTPException 404 ''Campaign not found''), db)
      | Some campaign \<Rightarrow>
          if campaign = Map.empty then (Inl (HTTPException 404 ''Campaign not found''), db)
          else (case campaign ''masterId'' of
                  None \<Rightarrow> (Inl (KeyError ''masterId''), db)
                | Some m \<Rightarrow>
                    if m \<noteq> JStr master_id
                    then (Inl (HTTPException 403 ''Only the master can delete the campaign''), db)
                    else (Inr (JObj [''message'' \<mapsto> JStr ''Campaign deleted successfully'']),
                          db\<lparr>campaigns := delete_one [(''id'', campaign_id)] (campaigns db),
                             campaign_characters :=
                               delete_many [(''campaignId'', campaign_id)] (campaign_characters db),
                             threats := delete_many [(''campaignId'', campaign_id)] (threats db),
                             campaign_rolls :=
                               delete_many [(''campaignId'', campaign_id)] (campaign_rolls db)\<rparr>)))"

subsection \<open>\<^verbatim>\<open>join_campaign\<close>\<close>

text \<open>\<^verbatim>\<open>CampaignCharacter(...).model_dump()\<close> and \<^verbatim>\<open>CampaignPlayer(...).model_dump()\<close>.\<close>

definition campaign_char_dump :: "join_env \<Rightarrow> string \<Rightarrow> JoinCampaignRequest \<Rightarrow> doc \<Rightarrow> doc" where
  "campaign_char_dump env cid input_data original_char =
     [''id'' \<mapsto> JStr (cc_id env),
      ''campaignId'' \<mapsto> JStr cid,
      ''originalCharacterId'' \<mapsto> JStr (characterId input_data),
      ''odiserId'' \<mapsto> JStr (odiserId input_data),
      ''data'' \<mapsto> JObj original_char,
      ''createdAt'' \<mapsto> JStr (cc_createdAt env),
      ''updatedAt'' \<mapsto> JStr (cc_updatedAt env)]"

definition new_player_dump :: "join_env \<Rightarrow> JoinCampaignRequest \<Rightarrow> string \<Rightarrow> doc" where
  "new_player_dump env input_data character_name =
     [''odiserId'' \<mapsto> JStr (odiserId input_data),
      ''odiserName'' \<mapsto> JStr (odiserName input_data),
      ''odiserEmail'' \<mapsto> JStr (odiserEmail input_data),
      ''characterId'' \<mapsto> JStr (cc_id env),
      ''characterName'' \<mapsto> JStr character_name,
      ''joinedAt'' \<mapsto> JStr (player_joinedAt env)]"

definition join_update :: "string \<Rightarrow> doc \<Rightarrow> string \<Rightarrow> doc \<Rightarrow> error + doc" where
  "join_update user_id new_player now d =
     bind_err (op_push ''playerIds'' (JStr user_id) d) (\<lambda>d1.
     bind_err (op_push ''players'' (JObj new_player) d1) (\<lambda>d2.
     op_set ''updatedAt'' (JStr now) d2))"

definition join_campaign :: "join_env \<Rightarrow> JoinCampaignRequest \<Rightarrow> db \<Rightarrow> (error + json) \<times> db" where
  "join_campaign env input_data db =
     (case find_one [(''inviteCode'', inviteCode input_data)] (campaigns db) of
        None \<Rightarrow> (Inl (HTTPException 404 ''Invalid invite code''), db)
      | Some campaign \<Rightarrow>
        if campaign = Map.empty then (Inl (HTTPException 404 ''Invalid invite code''), db)
        else (case campaign ''masterId'' of
          None \<Rightarrow> (Inl (KeyError ''masterId''), db)
        | Some m \<Rightarrow>
          if m = JStr (odiserId input_data)
          then (Inl (HTTPException 400 ''You are the master of this campaign''), db)
          else (case py_in (odiserId input_data) (dict_get campaign ''playerIds'' (JList [])) of
            Inl e \<Rightarrow> (Inl e, db)
          | Inr True \<Rightarrow> (Inl (HTTPException 400 ''You are already in this campaign''), db)
          | Inr False \<Rightarrow>
            (case find_one [(''id'', characterId input_data)] (characters db) of
              None \<Rightarrow> (Inl (HTTPException 404 ''Character not found''), db)
            | Some original_char \<Rightarrow>
              if original_char = Map.empty
              then (Inl (HTTPException 404 ''Character not found''), db)
              else (case campaign ''id'' of
                None \<Rightarrow> (Inl (KeyError ''id''), db)
              | Some (JStr cid) \<Rightarrow>
                (let campaign_char = campaign_char_dump env cid input_data original_char;
                     db1 = db\<lparr>campaign_characters :=
                                insert_one campaign_char (campaign_characters db)\<rparr>
                 in case dict_get original_char ''name'' (JStr '''') of
                      JStr character_name \<Rightarrow>
                        (case update_one [(''id'', cid)]
                                (join_update (odiserId input_data)
                                   (new_player_dump env input_data character_name)
                                   (campaign_updatedAt env))
                                (campaigns db1) of
                           Inl e \<Rightarrow> (Inl e, db1)
                         | Inr (matched_count, cs) \<Rightarrow>
                             (Inr (JObj [''success'' \<mapsto> JBool True,
                                         ''campaignId'' \<mapsto> JStr cid,
                                         ''characterId'' \<mapsto> JStr (cc_id env)]),
                              db1\<lparr>campaigns := cs\<rparr>))
                    | _ \<Rightarrow> (Inl ValidationError, db1))
              | Some _ \<Rightarrow> (Inl ValidationError, db))))))"

subsection \<open>\<^verbatim>\<open>leave_campaign\<close>\<close>

definition leave_update :: "string \<Rightarrow> string \<Rightarrow> doc \<Rightarrow> error + doc" where
  "leave_update user_id now d =
     bind_err (op_pull ''playerIds'' (pull_value (JStr user_id)) d) (\<lambda>d1.
     bind_err (op_pull ''players'' (pull_query [(''odiserId'', user_id)]) d1) (\<lambda>d2.
     op_set ''updatedAt'' (JStr now) d2))"

definition leave_campaign :: "string \<Rightarrow> string \<Rightarrow> string \<Rightarrow> db \<Rightarrow> (error + json) \<times> db" where
  "leave_campaign now campaign_id user_id db =
     (case find_one [(''id'', campaign_id)] (campaigns db) of
        None \<Rightarrow> (Inl (HTTPException 404 ''Campaign not found''), db)
      | Some campaign \<Rightarrow>
          if campaign = Map.empty then (Inl (HTTPException 404 ''Campaign not found''), db)
          else (case campaign ''masterId'' of
                  None \<Rightarrow> (Inl (KeyError ''masterId''), db)
                | Some m \<Rightarrow>
                    if JStr user_id = m
                    then (Inl (HTTPException 400 ''Master cannot leave the campaign''), db)
                    else (case update_one [(''id'', campaign_id)] (leave_update user_id now)
                                 (campaigns db) of
                            Inl e \<Rightarrow> (Inl e, db)
                          | Inr (matched_count, cs) \<Rightarrow>
                              (Inr (JObj [''message'' \<mapsto> JStr ''Left campaign successfully'']),
                               db\<lparr>campaigns := cs,
                                  campaign_characters :=
                                    delete_many [(''campaignId'', campaign_id),
                                                 (''odiserId'', user_id)]
                                      (campaign_characters db)\<rparr>))))"

subsection \<open>\<^verbatim>\<open>update_campaign_character\<close>\<close>

definition campaign_character_update :: "doc \<Rightarrow> string \<Rightarrow> doc \<Rightarrow> error + doc" where
  "campaign_character_update update_data now d =
     bind_err (op_set ''data'' (JObj update_data) d) (\<lambda>d1.
     op_set ''updatedAt'' (JStr now) d1)"

text \<open>
  The update document \<^verbatim>\<open>{"$set": {"data": update_data, "updatedAt": ...}}\<close> is encoded
  first: a payload the driver refuses raises its error before anything is written or
  matched. An encoded payload is then stored whole under \<open>data\<close>.
\<close>

definition update_campaign_character ::
  "(json \<Rightarrow> error option) \<Rightarrow> string \<Rightarrow> string \<Rightarrow> string \<Rightarrow> string \<Rightarrow> doc \<Rightarrow> db
     \<Rightarrow> (error + json) \<times> db" where
  "update_campaign_character encode_error now1 now2 campaign_id character_id update_data db =
     (let update_data' = update_data(''updatedAt'' \<mapsto> JStr now1) in
      case encode_error (JObj update_data') of
        Some e \<Rightarrow> (Inl e, db)
      | None \<Rightarrow>
         (case update_one [(''id'', character_id), (''campaignId'', campaign_id)]
                 (campaign_character_update update_data' now2) (campaign_characters db) of
            Inl e \<Rightarrow> (Inl e, db)
          | Inr (matched_count, ccs) \<Rightarrow>
              (let db' = db\<lparr>campaign_characters := ccs\<rparr> in
               if matched_count = 0
               then (Inl (HTTPException 404 ''Campaign character not found''), db')
               else (Inr (case find_one [(''id'', character_id)] ccs of
                            None \<Rightarrow> JNull
                          | Some char \<Rightarrow> JObj char), db'))))"

subsection \<open>\<^verbatim>\<open>get_player_stats\<close>\<close>

definition stats_projection :: "(string \<times> proj) list" where
  "stats_projection =
     [(''odiserId'', Incl), (''id'', Incl),
      (''data'', Sub [(''name'', Incl),
                      (''resources'', Sub [(''pv'', Incl), (''pa'', Incl)])]),
      (''updatedAt'', Incl)]"

definition zero_resource :: json where
  "zero_resource = JObj [''current'' \<mapsto> JInt 0, ''max'' \<mapsto> JInt 0]"

text \<open>The body of the loop: the summary of one projected CampaignCharacter.\<close>

definition stat_entry :: "doc \<Rightarrow> error + doc" where
  "stat_entry char =
     (let data = dict_get char ''data'' (JObj Map.empty) in
      bind_err (attr_get data ''name'' (JStr ''Unknown'')) (\<lambda>character_name.
      bind_err (attr_get data ''resources'' (JObj Map.empty)) (\<lambda>resources_pv.
      bind_err (attr_get resources_pv ''pv'' zero_resource) (\<lambda>pv.
      bind_err (attr_get data ''resources'' (JObj Map.empty)) (\<lambda>resources_pa.
      bind_err (attr_get resources_pa ''pa'' zero_resource) (\<lambda>pa.
      Inr [''odiserId'' \<mapsto> dict_get char ''odiserId'' JNull,
           ''characterId'' \<mapsto> dict_get char ''id'' JNull,
           ''characterName'' \<mapsto> character_name,
           ''pv'' \<mapsto> pv,
           ''pa'' \<mapsto> pa,
           ''updatedAt'' \<mapsto> dict_get char ''updatedAt'' JNull]))))))"

fun stats_loop :: "doc list \<Rightarrow> doc list \<Rightarrow> error + doc list" where
  "stats_loop stats [] = Inr stats"
| "stats_loop stats (char # chars) =
     (case stat_entry char of
        Inl e \<Rightarrow> Inl e
      | Inr entry \<Rightarrow> stats_loop (stats @ [entry]) chars)"

definition get_player_stats :: "string \<Rightarrow> db \<Rightarrow> (error + doc list) \<times> db" where
  "get_player_stats campaign_id db =
     (let chars = take 100 (map (project stats_projection)
                    (find_many [(''campaignId'', campaign_id)] (campaign_characters db)))
      in (stats_loop [] chars, db))"

section \<open>Notions used in the statements\<close>

text \<open>The list a document holds under a key; empty when the key is absent.\<close>

definition list_field :: "doc \<Rightarrow> string \<Rightarrow> json list" where
  "list_field d k = (case d k of Some (JList xs) \<Rightarrow> xs | _ \<Rightarrow> [])"

text \<open>The \<open>odiserId\<close> value of a membership record, and what a well-formed record is.\<close>

definition player_user :: "json \<Rightarrow> json" where
  "player_user p = (case p of JObj d \<Rightarrow> dict_get d ''odiserId'' JNull | _ \<Rightarrow> JNull)"

definition is_player :: "json \<Rightarrow> bool" where
  "is_player p =
     (case p of
        JObj d \<Rightarrow> (case d ''odiserId'' of Some (JStr u) \<Rightarrow> True | _ \<Rightarrow> False)
      | _ \<Rightarrow> False)"

text \<open>
  A campaign document is in sync when \<open>players\<close> is a list of membership records and
  \<open>playerIds\<close> is the list of their user ids, in the same order.
\<close>

definition in_sync :: "doc \<Rightarrow> bool" where
  "in_sync c =
     (case c ''players'' of
        Some (JList ps) \<Rightarrow>
          list_all is_player ps \<and> c ''playerIds'' = Some (JList (map player_user ps))
      | _ \<Rightarrow> False)"

text \<open>
  The stores that arise from one without campaigns by running the handlers modelled
  above, in any order and with any arguments; a handler that raises leaves the store it
  had reached.
\<close>

inductive reachable :: "db \<Rightarrow> bool" where
  initial: "campaigns db = [] \<Longrightarrow> reachable db"
| create: "reachable db \<Longrightarrow>
     reachable (snd (create_campaign new_id invite_code created_at updated_at input_data db))"
| join: "reachable db \<Longrightarrow> reachable (snd (join_campaign env request db))"
| leave: "reachable db \<Longrightarrow> reachable (snd (leave_campaign now campaign_id user_id db))"
| delete: "reachable db \<Longrightarrow> reachable (snd (delete_campaign campaign_id master_id db))"
| edit_character: "reachable db \<Longrightarrow>
     reachable (snd (update_character encode_error store_set now character_id update_data db))"
| edit_snapshot: "reachable db \<Longrightarrow>
     reachable (snd (update_campaign_character encode_error now1 now2 campaign_id character_id
                       update_data db))"

text \<open>
  What the specification says a player summary is, in its own words: the user id, the
  CampaignCharacter id, the name at \<open>data.name\<close> or the sentinel \<open>Unknown\<close>, the blocks at
  \<open>data.resources.pv\<close> and \<open>data.resources.pa\<close> or \<open>{current: 0, max: 0}\<close>, and
  \<open>updatedAt\<close>. A path is followed through embedded documents only.
\<close>

fun lookup_path :: "json \<Rightarrow> string list \<Rightarrow> json option" where
  "lookup_path v [] = Some v"
| "lookup_path (JObj d) (k # ks) = (case d k of None \<Rightarrow> None | Some v \<Rightarrow> lookup_path v ks)"
| "lookup_path JNull (k # ks) = None"
| "lookup_path (JBool b) (k # ks) = None"
| "lookup_path (JInt i) (k # ks) = None"
| "lookup_path (JFloat x) (k # ks) = None"
| "lookup_path (JStr s) (k # ks) = None"
| "lookup_path (JList xs) (k # ks) = None"

definition path_or :: "doc \<Rightarrow> string list \<Rightarrow> json \<Rightarrow> json" where
  "path_or d ks dflt = (case lookup_path (JObj d) ks of None \<Rightarrow> dflt | Some v \<Rightarrow> v)"

definition summary :: "doc \<Rightarrow> doc" where
  "summary char =
     [''odiserId'' \<mapsto> dict_get char ''odiserId'' JNull,
      ''characterId'' \<mapsto> dict_get char ''id'' JNull,
      ''characterName'' \<mapsto> path_or char [''data'', ''name''] (JStr ''Unknown''),
      ''pv'' \<mapsto> path_or char [''data'', ''resources'', ''pv''] zero_resource,
      ''pa'' \<mapsto> path_or char [''data'', ''resources'', ''pa''] zero_resource,
      ''updatedAt'' \<mapsto> dict_get char ''updatedAt'' JNull]"

text \<open>
  A CampaignCharacter is readable by the loop when neither \<open>data\<close> nor \<open>data.resources\<close>
  is an array: an array survives the projection and has no \<^verbatim>\<open>get\<close>.
\<close>

definition stats_readable :: "doc \<Rightarrow> bool" where
  "stats_readable char =
     (case char ''data'' of
        Some (JList xs) \<Rightarrow> False
      | Some (JObj data) \<Rightarrow> (case data ''resources'' of Some (JList ys) \<Rightarrow> False | _ \<Rightarrow> True)
      | _ \<Rightarrow> True)"

text \<open>
  The data model's reading of an id: every document of the collection carries a string
  under \<open>id\<close>, and no two documents carry the same.
\<close>

definition has_string_id :: "doc \<Rightarrow> bool" where
  "has_string_id d = (case d ''id'' of Some (JStr i) \<Rightarrow> True | _ \<Rightarrow> False)"

definition unique_ids :: "doc list \<Rightarrow> bool" where
  "unique_ids coll = (list_all has_string_id coll \<and> distinct (map (\<lambda>d. d ''id'') coll))"

section \<open>A small store for concrete runs\<close>

text \<open>
  One campaign \<open>K1\<close> of master \<open>M1\<close> with a threat and a recorded roll, and one character
  \<open>C1\<close> of user \<open>U1\<close>. The campaign document is the one \<^verbatim>\<open>create_campaign\<close> stores.
\<close>

definition example_campaign :: doc where
  "example_campaign =
     campaign_dump ''K1'' ''ABC123'' ''t0'' ''t0''
       \<lparr>name = ''Greed Island'', description = [], masterId = ''M1'',
        masterName = ''Ging'', masterEmail = []\<rparr>"

definition example_character :: doc where
  "example_character =
     [''id'' \<mapsto> JStr ''C1'',
      ''userId'' \<mapsto> JStr ''U1'',
      ''name'' \<mapsto> JStr ''Gon'',
      ''resources'' \<mapsto> JObj [''pv'' \<mapsto> JObj [''current'' \<mapsto> JInt 7, ''max'' \<mapsto> JInt 10],
                            ''pa'' \<mapsto> JObj [''current'' \<mapsto> JInt 3, ''max'' \<mapsto> JInt 10],
                            ''defense'' \<mapsto> JInt 10]]"

definition example_db :: db where
  "example_db =
     \<lparr>characters = [example_character],
      rolls = [],
      threats = [[''id'' \<mapsto> JStr ''T1'', ''campaignId'' \<mapsto> JStr ''K1'', ''name'' \<mapsto> JStr ''Ant'']],
      campaigns = [example_campaign],
      campaign_characters = [],
      campaign_rolls = [[''id'' \<mapsto> JStr ''R1'', ''campaignId'' \<mapsto> JStr ''K1'']]\<rparr>"

text \<open>
  User \<open>U1\<close> joins \<open>K1\<close> with character \<open>C1\<close>: the request, the values drawn during the
  call, and the store that results.
\<close>

definition example_request :: JoinCampaignRequest where
  "example_request =
     \<lparr>inviteCode = ''ABC123'', odiserId = ''U1'', odiserName = ''Killua'',
      odiserEmail = ''killua@example.org'', characterId = ''C1''\<rparr>"

definition example_env :: join_env where
  "example_env =
     \<lparr>cc_id = ''CC1'', cc_createdAt = ''t1'', cc_updatedAt = ''t1'',
      player_joinedAt = ''t1'', campaign_updatedAt = ''t2''\<rparr>"

definition example_snapshot :: doc where
  "example_snapshot = campaign_char_dump example_env ''K1'' example_request example_character"

definition example_player :: doc where
  "example_player = new_player_dump example_env example_request ''Gon''"

definition example_joined_campaign :: doc where
  "example_joined_campaign =
     example_campaign(''playerIds'' \<mapsto> JList [JStr ''U1''],
                      ''players'' \<mapsto> JList [JObj example_player],
                      ''updatedAt'' \<mapsto> JStr ''t2'')"

definition example_joined_db :: db where
  "example_joined_db =
     example_db\<lparr>campaign_characters := [example_snapshot],
                campaigns := [example_joined_campaign]\<rparr>"

text \<open>The \<open>data\<close> payload stored under a CampaignCharacter id, for reading results.\<close>

definition stored_data :: "string \<Rightarrow> db \<Rightarrow> json option" where
  "stored_data character_id db =
     (case find_one [(''id'', character_id)] (campaign_characters db) of
        None \<Rightarrow> None
      | Some char \<Rightarrow> char ''data'')"

text \<open>
  A store with a CampaignCharacter of \<open>U1\<close> in \<open>K1\<close> that no membership entry refers
  to: what is left when a join stops between its two writes. Here the name of the source
  character has been set to \<open>null\<close>, which \<^verbatim>\<open>CampaignPlayer\<close> rejects after the
  CampaignCharacter has been inserted.
\<close>

definition example_nameless_character :: doc where
  "example_nameless_character = example_character(''name'' \<mapsto> JNull)"

definition example_orphan :: doc where
  "example_orphan =
     campaign_char_dump example_env ''K1'' example_request example_nameless_character"

definition example_orphan_db :: db where
  "example_orphan_db =
     example_db\<lparr>characters := [example_nameless_character],
                campaign_characters := [example_orphan]\<rparr>"

text \<open>
  The campaign \<open>K1\<close> with 101 members: the \<open>i\<close>-th has a snapshot of her own, with an
  id and a user id of \<open>i\<close> letters.
\<close>

definition crowd_member :: "nat \<Rightarrow> doc" where
  "crowd_member i =
     example_snapshot(''id'' \<mapsto> JStr (replicate i CHR ''c''),
                      ''odiserId'' \<mapsto> JStr (replicate i CHR ''u''))"

definition example_crowded_db :: db where
  "example_crowded_db = example_db\<lparr>campaign_characters := map crowd_member [0..<101]\<rparr>"

text \<open>How many summaries a call returned: the count on success, the error otherwise.\<close>

definition summary_count :: "error + doc list \<Rightarrow> error + nat" where
  "summary_count r = (case r of Inl e \<Rightarrow> Inl e | Inr stats \<Rightarrow> Inr (length stats))"

text \<open>
  A store in which a second campaign document carries the id \<open>K1\<close> as well (an edit of
  a campaign may set any field, its id included); it has its own master and invite code.
\<close>

definition example_twin :: doc where
  "example_twin =
     campaign_dump ''K1'' ''XYZ789'' ''t0'' ''t0''
       \<lparr>name = ''Heavens Arena'', description = [], masterId = ''M2'',
        masterName = ''Wing'', masterEmail = []\<rparr>"

definition example_twin_db :: db where
  "example_twin_db = example_db\<lparr>campaigns := [example_campaign, example_twin]\<rparr>"

definition example_twin_request :: JoinCampaignRequest where
  "example_twin_request = example_request\<lparr>inviteCode := ''XYZ789''\<rparr>"

definition example_twin_joined_db :: db where
  "example_twin_joined_db =
     example_twin_db\<lparr>campaign_characters := [example_snapshot],
                     campaigns := [example_joined_campaign, example_twin]\<rparr>"

definition example_env2 :: join_env where
  "example_env2 =
     \<lparr>cc_id = ''CC2'', cc_createdAt = ''t5'', cc_updatedAt = ''t5'',
      player_joinedAt = ''t5'', campaign_updatedAt = ''t6''\<rparr>"

section \<open>Facts about the store\<close>

lemma find_one_matches: "find_one q coll = Some d \<Longrightarrow> matches q d"
  by (auto simp: find_one_def find_Some_iff)

lemma matches_nonempty: "matches ((k, s) # q) d \<Longrightarrow> d \<noteq> Map.empty"
  by (auto simp: matches_def field_matches_def)

lemma find_one_nonempty: "find_one ((k, s) # q) coll = Some d \<Longrightarrow> d \<noteq> Map.empty"
  using find_one_matches matches_nonempty by blast

lemma update_one_none:
  "find_one q coll = None \<Longrightarrow> update_one q upd coll = Inr (0, coll)"
  by (induction coll) (auto simp: find_one_def split: if_splits)

lemma find_one_split:
  "find_one q coll = Some d \<Longrightarrow>
     \<exists>pre post. coll = pre @ d # post \<and> list_all (\<lambda>x. \<not> matches q x) pre \<and> matches q d"
proof (induction coll)
  case Nil
  then show ?case by (simp add: find_one_def)
next
  case (Cons a coll)
  show ?case
  proof (cases "matches q a")
    case True
    with Cons.prems have "a = d" by (simp add: find_one_def)
    with True have "a # coll = [] @ d # coll \<and> list_all (\<lambda>x. \<not> matches q x) [] \<and> matches q d"
      by simp
    then show ?thesis by blast
  next
    case False
    with Cons.prems have "find_one q coll = Some d" by (simp add: find_one_def)
    from Cons.IH[OF this] obtain pre post where
      "coll = pre @ d # post" "list_all (\<lambda>x. \<not> matches q x) pre" "matches q d" by blast
    with False have "a # coll = (a # pre) @ d # post \<and> list_all (\<lambda>x. \<not> matches q x) (a # pre) \<and> matches q d"
      by simp
    then show ?thesis by blast
  qed
qed

lemma update_one_at:
  "list_all (\<lambda>x. \<not> matches q x) pre \<Longrightarrow> matches q d \<Longrightarrow>
     update_one q upd (pre @ d # post) =
       (case upd d of Inl e \<Rightarrow> Inl e | Inr d' \<Rightarrow> Inr (1, pre @ d' # post))"
  by (induction pre) (auto split: sum.splits)

lemma find_one_at:
  "list_all (\<lambda>x. \<not> matches q x) pre \<Longrightarrow> matches q d \<Longrightarrow> find_one q (pre @ d # post) = Some d"
  by (induction pre) (auto simp: find_one_def)

lemma delete_many_none_left: "find_many q (delete_many q coll) = []"
  by (simp add: find_many_def delete_many_def)

lemma delete_one_count:
  "length (find_many q (delete_one q coll)) = length (find_many q coll) - 1"
  by (induction coll) (auto simp: find_many_def)

lemma delete_many_unchanged: "find_many q coll = [] \<Longrightarrow> delete_many q coll = coll"
  by (simp add: find_many_def delete_many_def filter_empty_conv)

lemma op_pull_unchanged:
  "d k = Some (JList xs) \<Longrightarrow> list_all (\<lambda>x. \<not> cond x) xs \<Longrightarrow> op_pull k cond d = Inr d"
proof -
  assume a: "d k = Some (JList xs)" and b: "list_all (\<lambda>x. \<not> cond x) xs"
  from b have "filter (\<lambda>x. \<not> cond x) xs = xs" by (simp add: list_all_iff)
  with a show ?thesis by (simp add: op_pull_def map_upd_triv)
qed

lemma join_campaign_Inr:
  assumes "join_campaign env input_data db = (Inr r, db')"
  shows "\<exists>campaign m cid original_char character_name n cs.
           find_one [(''inviteCode'', inviteCode input_data)] (campaigns db) = Some campaign
         \<and> campaign ''masterId'' = Some m \<and> m \<noteq> JStr (odiserId input_data)
         \<and> py_in (odiserId input_data) (dict_get campaign ''playerIds'' (JList [])) = Inr False
         \<and> find_one [(''id'', characterId input_data)] (characters db) = Some original_char
         \<and> campaign ''id'' = Some (JStr cid)
         \<and> dict_get original_char ''name'' (JStr []) = JStr character_name
         \<and> update_one [(''id'', cid)]
              (join_update (odiserId input_data) (new_player_dump env input_data character_name)
                 (campaign_updatedAt env))
              (campaigns db) = Inr (n, cs)
         \<and> r = JObj [''success'' \<mapsto> JBool True, ''campaignId'' \<mapsto> JStr cid,
                     ''characterId'' \<mapsto> JStr (cc_id env)]
         \<and> db' = db\<lparr>campaign_characters :=
                       campaign_characters db @ [campaign_char_dump env cid input_data original_char],
                     campaigns := cs\<rparr>"
  using assms
  by (auto simp: join_campaign_def Let_def insert_one_def
      split: option.splits if_splits sum.splits bool.splits json.splits prod.splits)

lemma find_one_same_split:
  "find_one q1 coll = Some d \<Longrightarrow> find_one q2 coll = Some d \<Longrightarrow>
     \<exists>pre post. coll = pre @ d # post
        \<and> list_all (\<lambda>x. \<not> matches q1 x) pre \<and> list_all (\<lambda>x. \<not> matches q2 x) pre
        \<and> matches q1 d \<and> matches q2 d"
proof (induction coll)
  case Nil
  then show ?case by (simp add: find_one_def)
next
  case (Cons a coll)
  show ?case
  proof (cases "matches q1 a \<or> matches q2 a")
    case True
    with Cons.prems have ad: "a = d" by (auto simp: find_one_def split: if_splits)
    from Cons.prems have "matches q1 d" "matches q2 d" by (auto dest: find_one_matches)
    with ad have "a # coll = [] @ d # coll
        \<and> list_all (\<lambda>x. \<not> matches q1 x) [] \<and> list_all (\<lambda>x. \<not> matches q2 x) []
        \<and> matches q1 d \<and> matches q2 d"
      by simp
    then show ?thesis by blast
  next
    case False
    with Cons.prems have "find_one q1 coll = Some d" "find_one q2 coll = Some d"
      by (simp_all add: find_one_def)
    from Cons.IH[OF this] obtain pre post where
      "coll = pre @ d # post" "list_all (\<lambda>x. \<not> matches q1 x) pre"
      "list_all (\<lambda>x. \<not> matches q2 x) pre" "matches q1 d" "matches q2 d"
      by blast
    with False have "a # coll = (a # pre) @ d # post
        \<and> list_all (\<lambda>x. \<not> matches q1 x) (a # pre) \<and> list_all (\<lambda>x. \<not> matches q2 x) (a # pre)
        \<and> matches q1 d \<and> matches q2 d"
      by simp
    then show ?thesis by blast
  qed
qed

lemma join_update_Inr:
  assumes "join_update user_id new_player now d = Inr d'"
  shows "d' = d(''playerIds'' \<mapsto> JList (list_field d ''playerIds'' @ [JStr user_id]),
                ''players'' \<mapsto> JList (list_field d ''players'' @ [JObj new_player]),
                ''updatedAt'' \<mapsto> JStr now)"
  using assms
  by (auto simp: join_update_def op_push_def op_set_def bind_err_def list_field_def
      split: option.splits json.splits sum.splits)

lemma matches_join_update:
  "matches [(''inviteCode'', code)]
     (d(''playerIds'' \<mapsto> a, ''players'' \<mapsto> b, ''updatedAt'' \<mapsto> c))
   = matches [(''inviteCode'', code)] d"
  by (simp add: matches_def)

lemma join_campaign_again:
  assumes "join_campaign env input_data db = (Inr r, db')"
    and "find_one [(''inviteCode'', inviteCode input_data)] (campaigns db) = Some campaign"
    and "campaign ''id'' = Some (JStr cid)"
    and "find_one [(''id'', cid)] (campaigns db) = Some campaign"
    and "inviteCode input2 = inviteCode input_data"
    and "odiserId input2 = odiserId input_data"
  shows "join_campaign env2 input2 db' =
           (Inl (HTTPException 400 ''You are already in this campaign''), db')"
proof -
  from join_campaign_Inr[OF assms(1)] assms(2,3)
  obtain m original_char character_name n cs where
    mm: "campaign ''masterId'' = Some m" "m \<noteq> JStr (odiserId input_data)"
    and up: "update_one [(''id'', cid)]
              (join_update (odiserId input_data) (new_player_dump env input_data character_name)
                 (campaign_updatedAt env))
              (campaigns db) = Inr (n, cs)"
    and db': "db' = db\<lparr>campaign_characters :=
                       campaign_characters db @ [campaign_char_dump env cid input_data original_char],
                     campaigns := cs\<rparr>"
    by auto
  from find_one_same_split[OF assms(4) assms(2)] obtain pre post where
    s: "campaigns db = pre @ campaign # post"
    and p: "list_all (\<lambda>x. \<not> matches [(''id'', cid)] x) pre"
    and pi: "list_all (\<lambda>x. \<not> matches [(''inviteCode'', inviteCode input_data)] x) pre"
    and m: "matches [(''id'', cid)] campaign"
    and mi: "matches [(''inviteCode'', inviteCode input_data)] campaign"
    by blast
  define campaign' where
    "campaign' = campaign
        (''playerIds'' \<mapsto> JList (list_field campaign ''playerIds'' @ [JStr (odiserId input_data)]),
         ''players'' \<mapsto> JList (list_field campaign ''players'' @
                              [JObj (new_player_dump env input_data character_name)]),
         ''updatedAt'' \<mapsto> JStr (campaign_updatedAt env))"
  from up have cs: "cs = pre @ campaign' # post"
    by (auto simp: s update_one_at[OF p m] campaign'_def split: sum.splits
        dest: join_update_Inr)
  have mi': "matches [(''inviteCode'', inviteCode input_data)] campaign'"
    using mi unfolding campaign'_def by (simp only: matches_join_update)
  have f: "find_one [(''inviteCode'', inviteCode input2)] (campaigns db') = Some campaign'"
    using find_one_at[OF pi mi'] by (simp add: db' cs assms(5))
  have ne: "campaign' \<noteq> Map.empty"
    using find_one_nonempty[OF f] .
  have ms: "campaign' ''masterId'' = Some m"
    using mm(1) by (simp add: campaign'_def)
  have pl: "py_in (odiserId input_data) (dict_get campaign' ''playerIds'' (JList [])) = Inr True"
    by (simp add: campaign'_def dict_get_def)
  show ?thesis
    using mm(2) by (simp add: join_campaign_def f ne ms pl assms(6))
qed

text \<open>
  In a collection with unique ids, the id of a document retrieves that document and
  nothing else matches it: the conditions under which the theorems on \<^verbatim>\<open>join_campaign\<close>
  and \<^verbatim>\<open>delete_campaign\<close> below are stated.
\<close>

lemma matches_string_id:
  "has_string_id d \<Longrightarrow> matches [(''id'', cid)] d = (d ''id'' = Some (JStr cid))"
  by (auto simp: has_string_id_def matches_def field_matches_def split: option.splits json.splits)

lemma no_id_no_match:
  "list_all has_string_id coll \<Longrightarrow> Some (JStr cid) \<notin> set (map (\<lambda>d. d ''id'') coll) \<Longrightarrow>
     filter (matches [(''id'', cid)]) coll = []"
  by (induction coll) (auto simp: matches_string_id)

lemma unique_ids_filter:
  "unique_ids coll \<Longrightarrow> c \<in> set coll \<Longrightarrow> c ''id'' = Some (JStr cid) \<Longrightarrow>
     filter (matches [(''id'', cid)]) coll = [c]"
proof (induction coll)
  case Nil
  then show ?case by simp
next
  case (Cons a coll)
  show ?case
  proof (cases "a ''id'' = Some (JStr cid)")
    case True
    with Cons.prems have "a = c"
      by (auto simp: unique_ids_def image_iff)
    moreover from True Cons.prems have "filter (matches [(''id'', cid)]) coll = []"
      by (intro no_id_no_match) (auto simp: unique_ids_def)
    ultimately show ?thesis
      using True Cons.prems by (simp add: unique_ids_def matches_string_id)
  next
    case False
    with Cons.prems have "c \<in> set coll" "unique_ids coll" "has_string_id a"
      by (auto simp: unique_ids_def)
    with Cons.IH Cons.prems(3) False show ?thesis
      by (simp add: matches_string_id)
  qed
qed

lemma unique_ids_count:
  "unique_ids coll \<Longrightarrow> c \<in> set coll \<Longrightarrow> c ''id'' = Some (JStr cid) \<Longrightarrow>
     length (find_many [(''id'', cid)] coll) = 1"
  by (simp add: find_many_def unique_ids_filter)

lemma find_one_filter: "find_one q coll = (case filter (matches q) coll of [] \<Rightarrow> None | d # ds \<Rightarrow> Some d)"
  by (induction coll) (auto simp: find_one_def)

lemma unique_ids_find_one:
  "unique_ids coll \<Longrightarrow> c \<in> set coll \<Longrightarrow> c ''id'' = Some (JStr cid) \<Longrightarrow>
     find_one [(''id'', cid)] coll = Some c"
  by (simp add: find_one_filter unique_ids_filter)

lemma example_campaign_fields:
  "example_campaign ''id'' = Some (JStr ''K1'')"
  "example_campaign ''masterId'' = Some (JStr ''M1'')"
  "example_campaign ''inviteCode'' = Some (JStr ''ABC123'')"
  "example_campaign ''players'' = Some (JList [])"
  "example_campaign ''playerIds'' = Some (JList [])"
  by (simp_all add: example_campaign_def campaign_dump_def)

lemma example_find_campaign:
  "find_one [(''id'', ''K1'')] (campaigns example_db) = Some example_campaign"
  "find_one [(''inviteCode'', ''ABC123'')] (campaigns example_db) = Some example_campaign"
  by (simp_all add: example_db_def find_one_def matches_def field_matches_def
      example_campaign_fields)

section \<open>Snapshot independence\<close>

text \<open>
  C2. Updating a source Character leaves every CampaignCharacter document as it was, and
  updating a CampaignCharacter leaves every Character document as it was, whatever the
  identifiers and the payload are, whatever the driver refuses to encode and whatever the
  store makes of the payload of \<^verbatim>\<open>$set\<close>: each handler writes to its own collection only.
\<close>

theorem snapshot_independent:
  "campaign_characters
     (snd (update_character encode_error store_set now character_id update_data db))
     = campaign_characters db
   \<and> characters
       (snd (update_campaign_character encode_error' now1 now2 campaign_id cc update_data db))
     = characters db"
  by (simp add: update_character_def update_campaign_character_def Let_def
      split: sum.splits prod.splits option.splits)

section \<open>Deleting a campaign\<close>

text \<open>
  C8. When the campaign exists and the requester is not its stored master,
  \<^verbatim>\<open>delete_campaign\<close> raises 403 (Forbidden) and the store is returned as it was: the
  campaign, its threats, its campaign characters and its rolls are untouched.
\<close>

theorem delete_campaign_non_master:
  assumes "find_one [(''id'', campaign_id)] (campaigns db) = Some campaign"
    and "campaign ''masterId'' = Some m"
    and "m \<noteq> JStr master_id"
  shows "delete_campaign campaign_id master_id db =
           (Inl (HTTPException 403 ''Only the master can delete the campaign''), db)"
  using assms find_one_nonempty[OF assms(1)] by (simp add: delete_campaign_def)

theorem delete_campaign_non_master_witness:
  "delete_campaign ''K1'' ''U1'' example_db =
     (Inl (HTTPException 403 ''Only the master can delete the campaign''), example_db)"
  by (rule delete_campaign_non_master[where campaign = example_campaign and m = "JStr ''M1''"])
     (simp_all add: example_find_campaign example_campaign_fields)

section \<open>Leaving a campaign\<close>

text \<open>
  C9. \<^verbatim>\<open>leave_campaign\<close> called with the id of the campaign's master raises 400
  (the invalid operation "Master cannot leave the campaign"), and called on a campaign id
  that no document carries raises 404 (not found); in both cases the store is returned as
  it was.
\<close>

theorem leave_campaign_master_or_missing:
  "(find_one [(''id'', campaign_id)] (campaigns db) = Some campaign \<and>
      campaign ''masterId'' = Some (JStr user_id)
    \<longrightarrow> leave_campaign now campaign_id user_id db =
          (Inl (HTTPException 400 ''Master cannot leave the campaign''), db))
   \<and> (find_one [(''id'', campaign_id)] (campaigns db) = None
    \<longrightarrow> leave_campaign now campaign_id user_id db =
          (Inl (HTTPException 404 ''Campaign not found''), db))"
  using find_one_nonempty[of "''id''" campaign_id "[]" "campaigns db" campaign]
  by (simp add: leave_campaign_def)

theorem leave_campaign_master_or_missing_witness:
  "leave_campaign ''t1'' ''K1'' ''M1'' example_db =
     (Inl (HTTPException 400 ''Master cannot leave the campaign''), example_db)
   \<and> leave_campaign ''t1'' ''K9'' ''M1'' example_db =
     (Inl (HTTPException 404 ''Campaign not found''), example_db)"
proof -
  have missing: "find_one [(''id'', ''K9'')] (campaigns example_db) = None"
    by (simp add: example_db_def find_one_def matches_def field_matches_def
        example_campaign_fields)
  show ?thesis
    using leave_campaign_master_or_missing
            [of "''K1''" example_db example_campaign "''M1''" "''t1''"]
          leave_campaign_master_or_missing
            [of "''K9''" example_db example_campaign "''M1''" "''t1''"]
          missing
    by (simp add: example_find_campaign example_campaign_fields)
qed

lemma example_snapshot_fields:
  "example_snapshot ''id'' = Some (JStr ''CC1'')"
  "example_snapshot ''campaignId'' = Some (JStr ''K1'')"
  "example_snapshot ''odiserId'' = Some (JStr ''U1'')"
  "example_snapshot ''data'' = Some (JObj example_character)"
  by (simp_all add: example_snapshot_def campaign_char_dump_def example_env_def example_request_def)

lemma example_find_snapshot:
  "find_one [(''id'', ''CC1''), (''campaignId'', ''K1'')] (campaign_characters example_joined_db)
     = Some example_snapshot"
  by (simp add: example_joined_db_def find_one_def matches_def field_matches_def
      example_snapshot_fields)

section \<open>Updating a campaign character\<close>

lemma holds_big_int_field: "d k = Some v \<Longrightarrow> holds_big_int v \<Longrightarrow> holds_big_int (JObj d)"
  by (auto intro!: exI[of _ k])

lemma killua_payload_encoded:
  "int64_error (JObj [''name'' \<mapsto> JStr ''Killua'', ''updatedAt'' \<mapsto> JStr ''t3'']) = None"
  by (simp add: int64_error_def split: option.splits)

text \<open>
  With an encoder that refuses the integers outside signed 64 bits, the payload
  \<open>{hp: 2^63}\<close> raises \<^verbatim>\<open>OverflowError\<close> on every store, and the store is as it was.
\<close>

lemma update_campaign_character_overflow:
  "update_campaign_character int64_error now1 now2 campaign_id character_id
     [''hp'' \<mapsto> JInt (2 ^ 63)] db = (Inl OverflowError, db)"
proof -
  have "holds_big_int (JObj [''hp'' \<mapsto> JInt (2 ^ 63), ''updatedAt'' \<mapsto> JStr now1])"
    by (rule holds_big_int_field[of _ "''hp''" "JInt (2 ^ 63)"]) simp_all
  then show ?thesis
    by (simp add: update_campaign_character_def Let_def int64_error_def)
qed

text \<open>
  C5, as amended. Let the driver encode the supplied field map with \<open>updatedAt\<close> set to
  the time of the call. When a CampaignCharacter matches both the id and the campaign id,
  \<^verbatim>\<open>update_campaign_character\<close> replaces the whole stored \<open>data\<close> payload of the first
  such document by that map (no field of the old payload survives, so it is a replacement
  and not a merge), and sets the document's own \<open>updatedAt\<close>; no other document changes.
  When none matches, it raises 404 and the store is returned as it was. When the driver
  refuses the map, its error is raised and the store is returned as it was.
\<close>

theorem update_campaign_character_replaces_data:
  "(encode_error (JObj (update_data(''updatedAt'' \<mapsto> JStr now1))) = None \<and>
    find_one [(''id'', character_id), (''campaignId'', campaign_id)] (campaign_characters db)
      = Some char \<longrightarrow>
    (\<exists>r pre post.
       campaign_characters db = pre @ char # post \<and>
       update_campaign_character encode_error now1 now2 campaign_id character_id update_data db =
         (Inr r, db\<lparr>campaign_characters :=
                      pre @ char(''data'' \<mapsto> JObj (update_data(''updatedAt'' \<mapsto> JStr now1)),
                                 ''updatedAt'' \<mapsto> JStr now2) # post\<rparr>)))
   \<and> (encode_error (JObj (update_data(''updatedAt'' \<mapsto> JStr now1))) = None \<and>
      find_one [(''id'', character_id), (''campaignId'', campaign_id)] (campaign_characters db)
        = None \<longrightarrow>
      update_campaign_character encode_error now1 now2 campaign_id character_id update_data db =
        (Inl (HTTPException 404 ''Campaign character not found''), db))
   \<and> (encode_error (JObj (update_data(''updatedAt'' \<mapsto> JStr now1))) = Some e \<longrightarrow>
      update_campaign_character encode_error now1 now2 campaign_id character_id update_data db =
        (Inl e, db))"
proof (intro conjI impI; (elim conjE)?)
  assume enc: "encode_error (JObj (update_data(''updatedAt'' \<mapsto> JStr now1))) = None"
    and f: "find_one [(''id'', character_id), (''campaignId'', campaign_id)]
               (campaign_characters db) = Some char"
  from find_one_split[OF f] obtain pre post where
    s: "campaign_characters db = pre @ char # post"
    and p: "list_all (\<lambda>x. \<not> matches [(''id'', character_id), (''campaignId'', campaign_id)] x) pre"
    and m: "matches [(''id'', character_id), (''campaignId'', campaign_id)] char"
    by blast
  have "update_campaign_character encode_error now1 now2 campaign_id character_id update_data db =
         (Inr (case find_one [(''id'', character_id)]
                 (pre @ char(''data'' \<mapsto> JObj (update_data(''updatedAt'' \<mapsto> JStr now1)),
                                 ''updatedAt'' \<mapsto> JStr now2) # post) of
                 None \<Rightarrow> JNull | Some c \<Rightarrow> JObj c),
          db\<lparr>campaign_characters :=
                      pre @ char(''data'' \<mapsto> JObj (update_data(''updatedAt'' \<mapsto> JStr now1)),
                                 ''updatedAt'' \<mapsto> JStr now2) # post\<rparr>)"
    by (simp add: Let_def update_campaign_character_def enc s update_one_at[OF p m]
        campaign_character_update_def op_set_def bind_err_def)
  with s show "\<exists>r pre post.
       campaign_characters db = pre @ char # post \<and>
       update_campaign_character encode_error now1 now2 campaign_id character_id update_data db =
         (Inr r, db\<lparr>campaign_characters :=
                      pre @ char(''data'' \<mapsto> JObj (update_data(''updatedAt'' \<mapsto> JStr now1)),
                                 ''updatedAt'' \<mapsto> JStr now2) # post\<rparr>)"
    by blast
next
  assume "encode_error (JObj (update_data(''updatedAt'' \<mapsto> JStr now1))) = None"
    and "find_one [(''id'', character_id), (''campaignId'', campaign_id)]
               (campaign_characters db) = None"
  then show "update_campaign_character encode_error now1 now2 campaign_id character_id
               update_data db =
      (Inl (HTTPException 404 ''Campaign character not found''), db)"
    by (simp add: Let_def update_campaign_character_def update_one_none)
next
  assume "encode_error (JObj (update_data(''updatedAt'' \<mapsto> JStr now1))) = Some e"
  then show "update_campaign_character encode_error now1 now2 campaign_id character_id
               update_data db = (Inl e, db)"
    by (simp add: Let_def update_campaign_character_def)
qed

theorem update_campaign_character_replaces_data_witness:
  "(\<exists>r pre post.
       campaign_characters example_joined_db = pre @ example_snapshot # post \<and>
       update_campaign_character int64_error ''t3'' ''t4'' ''K1'' ''CC1''
           [''name'' \<mapsto> JStr ''Killua''] example_joined_db =
         (Inr r, example_joined_db\<lparr>campaign_characters :=
                      pre @ example_snapshot
                             (''data'' \<mapsto> JObj [''name'' \<mapsto> JStr ''Killua'',
                                                ''updatedAt'' \<mapsto> JStr ''t3''],
                              ''updatedAt'' \<mapsto> JStr ''t4'') # post\<rparr>))
   \<and> update_campaign_character int64_error ''t3'' ''t4'' ''K9'' ''CC1''
         [''name'' \<mapsto> JStr ''Killua''] example_joined_db =
      (Inl (HTTPException 404 ''Campaign character not found''), example_joined_db)
   \<and> update_campaign_character int64_error ''t3'' ''t4'' ''K1'' ''CC1''
         [''hp'' \<mapsto> JInt (2 ^ 63)] example_joined_db =
      (Inl OverflowError, example_joined_db)"
proof -
  have missing: "find_one [(''id'', ''CC1''), (''campaignId'', ''K9'')]
      (campaign_characters example_joined_db) = None"
    by (simp add: example_joined_db_def find_one_def matches_def field_matches_def
      example_snapshot_fields)
  have refused: "int64_error (JObj [''hp'' \<mapsto> JInt (2 ^ 63), ''updatedAt'' \<mapsto> JStr ''t3''])
      = Some OverflowError"
  proof -
    have "holds_big_int (JObj [''hp'' \<mapsto> JInt (2 ^ 63), ''updatedAt'' \<mapsto> JStr ''t3''])"
      by (rule holds_big_int_field[of _ "''hp''" "JInt (2 ^ 63)"]) simp_all
    then show ?thesis by (simp add: int64_error_def)
  qed
  show ?thesis
    using update_campaign_character_replaces_data
            [where encode_error = int64_error and character_id = "''CC1''"
               and campaign_id = "''K1''" and db = example_joined_db
               and char = example_snapshot and ?now1.0 = "''t3''" and ?now2.0 = "''t4''"
               and update_data = "[''name'' \<mapsto> JStr ''Killua'']"]
          update_campaign_character_replaces_data
            [where encode_error = int64_error and character_id = "''CC1''"
               and campaign_id = "''K9''" and db = example_joined_db
               and ?now1.0 = "''t3''" and ?now2.0 = "''t4''"
               and update_data = "[''name'' \<mapsto> JStr ''Killua'']"]
          update_campaign_character_replaces_data
            [where encode_error = int64_error and character_id = "''CC1''"
               and campaign_id = "''K1''" and db = example_joined_db
               and ?now1.0 = "''t3''" and ?now2.0 = "''t4''"
               and update_data = "[''hp'' \<mapsto> JInt (2 ^ 63)]" and e = OverflowError]
          missing refused example_find_snapshot killua_payload_encoded
    by simp
qed

text \<open>
  The claim as it was stated fails: after an update with the one-field map
  \<open>{name: Killua}\<close>, which the driver encodes, the stored payload is not that map,
  because the handler has added \<open>updatedAt\<close> to it.
\<close>

theorem update_campaign_character_counterexample:
  "stored_data ''CC1''
     (snd (update_campaign_character int64_error ''t3'' ''t4'' ''K1'' ''CC1''
             [''name'' \<mapsto> JStr ''Killua''] example_joined_db))
   \<noteq> Some (JObj [''name'' \<mapsto> JStr ''Killua''])"
proof -
  have "stored_data ''CC1''
     (snd (update_campaign_character int64_error ''t3'' ''t4'' ''K1'' ''CC1''
             [''name'' \<mapsto> JStr ''Killua''] example_joined_db))
    = Some (JObj [''name'' \<mapsto> JStr ''Killua'', ''updatedAt'' \<mapsto> JStr ''t3''])"
    by (simp add: Let_def update_campaign_character_def killua_payload_encoded
        example_joined_db_def stored_data_def
        find_one_def matches_def field_matches_def example_snapshot_fields
        campaign_character_update_def op_set_def bind_err_def)
  moreover have "[''name'' \<mapsto> JStr ''Killua'', ''updatedAt'' \<mapsto> JStr ''t3''] ''updatedAt''
      \<noteq> [''name'' \<mapsto> JStr ''Killua''] ''updatedAt''"
    by simp
  then have "[''name'' \<mapsto> JStr ''Killua'', ''updatedAt'' \<mapsto> JStr ''t3'']
      \<noteq> [''name'' \<mapsto> JStr ''Killua'']"
    by metis
  ultimately show ?thesis by simp
qed

section \<open>Deleting a campaign as its master\<close>

text \<open>
  C7, as amended. When the campaign exists, its id matches a single Campaign document
  and the requester is its stored master, \<^verbatim>\<open>delete_campaign\<close> succeeds and performs all four
  deletions, each on its own collection and whether or not it matches a document: the
  Campaign document is removed and so are all CampaignCharacter, Threat and CampaignRoll
  documents of that campaign id, so that no matching document is left in any of the four
  collections.
\<close>

theorem delete_campaign_by_master:
  assumes "find_one [(''id'', campaign_id)] (campaigns db) = Some campaign"
    and "campaign ''masterId'' = Some (JStr master_id)"
    and "length (find_many [(''id'', campaign_id)] (campaigns db)) = 1"
  shows "\<exists>db'. delete_campaign campaign_id master_id db =
                 (Inr (JObj [''message'' \<mapsto> JStr ''Campaign deleted successfully'']), db')
          \<and> campaigns db' = delete_one [(''id'', campaign_id)] (campaigns db)
          \<and> campaign_characters db' =
              delete_many [(''campaignId'', campaign_id)] (campaign_characters db)
          \<and> threats db' = delete_many [(''campaignId'', campaign_id)] (threats db)
          \<and> campaign_rolls db' = delete_many [(''campaignId'', campaign_id)] (campaign_rolls db)
          \<and> find_many [(''id'', campaign_id)] (campaigns db') = []
          \<and> find_many [(''campaignId'', campaign_id)] (campaign_characters db') = []
          \<and> find_many [(''campaignId'', campaign_id)] (threats db') = []
          \<and> find_many [(''campaignId'', campaign_id)] (campaign_rolls db') = []"
proof -
  have "length (find_many [(''id'', campaign_id)]
                  (delete_one [(''id'', campaign_id)] (campaigns db))) = 0"
    using assms(3) by (simp add: delete_one_count)
  then have gone: "find_many [(''id'', campaign_id)]
                     (delete_one [(''id'', campaign_id)] (campaigns db)) = []"
    by simp
  show ?thesis
    using assms(1,2) find_one_nonempty[OF assms(1)] gone
    by (simp add: delete_campaign_def delete_many_none_left)
qed

theorem delete_campaign_by_master_witness:
  "\<exists>db'. delete_campaign ''K1'' ''M1'' example_db =
                 (Inr (JObj [''message'' \<mapsto> JStr ''Campaign deleted successfully'']), db')
          \<and> campaigns db' = delete_one [(''id'', ''K1'')] (campaigns example_db)
          \<and> campaign_characters db' =
              delete_many [(''campaignId'', ''K1'')] (campaign_characters example_db)
          \<and> threats db' = delete_many [(''campaignId'', ''K1'')] (threats example_db)
          \<and> campaign_rolls db' = delete_many [(''campaignId'', ''K1'')] (campaign_rolls example_db)
          \<and> find_many [(''id'', ''K1'')] (campaigns db') = []
          \<and> find_many [(''campaignId'', ''K1'')] (campaign_characters db') = []
          \<and> find_many [(''campaignId'', ''K1'')] (threats db') = []
          \<and> find_many [(''campaignId'', ''K1'')] (campaign_rolls db') = []"
proof -
  have one: "length (find_many [(''id'', ''K1'')] (campaigns example_db)) = 1"
    by (simp add: example_db_def find_many_def matches_def field_matches_def
        example_campaign_fields)
  show ?thesis
    by (rule delete_campaign_by_master[OF example_find_campaign(1) example_campaign_fields(2) one])
qed

section \<open>Leaving a campaign as a non-member\<close>

text \<open>
  C10, as amended. When the campaign exists and the user is neither its master nor in its
  \<open>playerIds\<close> and \<open>players\<close> lists, \<^verbatim>\<open>leave_campaign\<close> succeeds, the only change to the
  campaign document is its refreshed \<open>updatedAt\<close> (both lists are as before), and the
  CampaignCharacter documents recorded for that campaign and user are deleted: none when
  no such document exists, in which case the collection is unchanged.
\<close>

theorem leave_campaign_non_member:
  assumes "find_one [(''id'', campaign_id)] (campaigns db) = Some campaign"
    and "campaign ''masterId'' = Some m"
    and "m \<noteq> JStr user_id"
    and "campaign ''playerIds'' = Some (JList ids)"
    and "list_all (\<lambda>x. x \<noteq> JStr user_id) ids"
    and "campaign ''players'' = Some (JList ps)"
    and "list_all (\<lambda>p. \<not> pull_query [(''odiserId'', user_id)] p) ps"
  shows "(\<exists>pre post.
           campaigns db = pre @ campaign # post \<and>
           leave_campaign now campaign_id user_id db =
             (Inr (JObj [''message'' \<mapsto> JStr ''Left campaign successfully'']),
              db\<lparr>campaigns := pre @ campaign(''updatedAt'' \<mapsto> JStr now) # post,
                 campaign_characters :=
                   delete_many [(''campaignId'', campaign_id), (''odiserId'', user_id)]
                     (campaign_characters db)\<rparr>))
         \<and> (find_many [(''campaignId'', campaign_id), (''odiserId'', user_id)]
                (campaign_characters db) = []
              \<longrightarrow> campaign_characters (snd (leave_campaign now campaign_id user_id db))
                    = campaign_characters db)"
proof -
  from find_one_split[OF assms(1)] obtain pre post where
    s: "campaigns db = pre @ campaign # post"
    and p: "list_all (\<lambda>x. \<not> matches [(''id'', campaign_id)] x) pre"
    and m: "matches [(''id'', campaign_id)] campaign"
    by blast
  have a: "op_pull ''playerIds'' (pull_value (JStr user_id)) campaign = Inr campaign"
    using assms(4,5) by (intro op_pull_unchanged) (simp_all add: pull_value_def)
  have b: "op_pull ''players'' (pull_query [(''odiserId'', user_id)]) campaign = Inr campaign"
    using assms(6,7) by (intro op_pull_unchanged)
  have u: "leave_update user_id now campaign = Inr (campaign(''updatedAt'' \<mapsto> JStr now))"
    by (simp add: leave_update_def a b bind_err_def op_set_def)
  have "leave_campaign now campaign_id user_id db =
             (Inr (JObj [''message'' \<mapsto> JStr ''Left campaign successfully'']),
              db\<lparr>campaigns := pre @ campaign(''updatedAt'' \<mapsto> JStr now) # post,
                 campaign_characters :=
                   delete_many [(''campaignId'', campaign_id), (''odiserId'', user_id)]
                     (campaign_characters db)\<rparr>)"
    using assms(1,2,3) find_one_nonempty[OF assms(1)]
    by (auto simp add: leave_campaign_def s update_one_at[OF p m] u)
  with s show ?thesis by (auto simp: delete_many_unchanged)
qed

theorem leave_campaign_non_member_witness:
  "(\<exists>pre post.
      campaigns example_db = pre @ example_campaign # post \<and>
      leave_campaign ''t3'' ''K1'' ''U1'' example_db =
        (Inr (JObj [''message'' \<mapsto> JStr ''Left campaign successfully'']),
         example_db\<lparr>campaigns := pre @ example_campaign(''updatedAt'' \<mapsto> JStr ''t3'') # post,
                    campaign_characters :=
                      delete_many [(''campaignId'', ''K1''), (''odiserId'', ''U1'')]
                        (campaign_characters example_db)\<rparr>))
   \<and> campaign_characters (snd (leave_campaign ''t3'' ''K1'' ''U1'' example_db))
       = campaign_characters example_db"
proof -
  have none: "find_many [(''campaignId'', ''K1''), (''odiserId'', ''U1'')]
                (campaign_characters example_db) = []"
    by (simp add: example_db_def find_many_def)
  show ?thesis
    using leave_campaign_non_member
            [where campaign_id = "''K1''" and db = example_db and campaign = example_campaign
               and m = "JStr ''M1''" and user_id = "''U1''" and ids = "[]" and ps = "[]"
               and now = "''t3''"]
          none
    by (simp add: example_find_campaign example_campaign_fields)
qed

lemma example_orphan_fields:
  "example_orphan ''campaignId'' = Some (JStr ''K1'')"
  "example_orphan ''odiserId'' = Some (JStr ''U1'')"
  by (simp_all add: example_orphan_def campaign_char_dump_def example_request_def)

lemma join_campaign_stops_between_writes:
  "join_campaign example_env example_request
     (example_db\<lparr>characters := [example_nameless_character]\<rparr>)
   = (Inl ValidationError, example_orphan_db)"
proof -
  have r: "inviteCode example_request = ''ABC123''" "odiserId example_request = ''U1''"
    "characterId example_request = ''C1''"
    by (simp_all add: example_request_def)
  have c: "find_one [(''id'', ''C1'')] [example_nameless_character]
             = Some example_nameless_character"
    by (simp add: find_one_def matches_def field_matches_def example_nameless_character_def
        example_character_def)
  have ne: "example_campaign \<noteq> Map.empty" "example_nameless_character \<noteq> Map.empty"
    using find_one_nonempty[OF example_find_campaign(1)] find_one_nonempty[OF c]
    by simp_all
  have n: "dict_get example_nameless_character ''name'' (JStr []) = JNull"
    by (simp add: dict_get_def example_nameless_character_def)
  show ?thesis
    by (simp add: join_campaign_def r example_find_campaign c ne n example_campaign_fields
        dict_get_def[of example_campaign]
        Let_def insert_one_def example_orphan_db_def example_orphan_def)
       (simp add: example_db_def)
qed

text \<open>
  The claim as it was stated fails on a store that holds a CampaignCharacter of a user
  who is not in the membership lists: the user's leave succeeds and deletes it.
\<close>

theorem leave_campaign_non_member_counterexample:
  "find_one [(''id'', ''K1'')] (campaigns example_orphan_db) = Some example_campaign
   \<and> example_campaign ''masterId'' = Some (JStr ''M1'')
   \<and> example_campaign ''playerIds'' = Some (JList [])
   \<and> example_campaign ''players'' = Some (JList [])
   \<and> campaign_characters example_orphan_db = [example_orphan]
   \<and> fst (leave_campaign ''t3'' ''K1'' ''U1'' example_orphan_db) =
       Inr (JObj [''message'' \<mapsto> JStr ''Left campaign successfully''])
   \<and> campaign_characters (snd (leave_campaign ''t3'' ''K1'' ''U1'' example_orphan_db)) = []"
proof -
  have f: "find_one [(''id'', ''K1'')] (campaigns example_orphan_db) = Some example_campaign"
    by (simp add: example_orphan_db_def example_find_campaign)
  have "leave_update ''U1'' ''t3'' example_campaign = Inr (example_campaign(''updatedAt'' \<mapsto> JStr ''t3''))"
    by (simp add: leave_update_def op_pull_def op_set_def bind_err_def example_campaign_fields map_upd_triv)
  moreover have "update_one [(''id'', ''K1'')] (leave_update ''U1'' ''t3'') (campaigns example_orphan_db)
      = (case leave_update ''U1'' ''t3'' example_campaign of Inl e \<Rightarrow> Inl e | Inr d \<Rightarrow> Inr (1, [d]))"
    using find_one_matches[OF f] by (simp add: example_orphan_db_def example_db_def)
  moreover have "delete_many [(''campaignId'', ''K1''), (''odiserId'', ''U1'')]
                   (campaign_characters example_orphan_db) = []"
    by (simp add: example_orphan_db_def delete_many_def matches_def field_matches_def
        example_orphan_fields)
  ultimately have "leave_campaign ''t3'' ''K1'' ''U1'' example_orphan_db =
       (Inr (JObj [''message'' \<mapsto> JStr ''Left campaign successfully'']),
        example_orphan_db\<lparr>campaigns := [example_campaign(''updatedAt'' \<mapsto> JStr ''t3'')],
                           campaign_characters := []\<rparr>)"
    using f find_one_nonempty[OF f]
    by (simp add: leave_campaign_def example_campaign_fields)
  with f show ?thesis
    by (simp add: example_campaign_fields) (simp add: example_orphan_db_def)
qed

lemma example_character_fields:
  "example_character ''id'' = Some (JStr ''C1'')"
  "example_character ''name'' = Some (JStr ''Gon'')"
  by (simp_all add: example_character_def)

lemma example_find_character:
  "find_one [(''id'', ''C1'')] (characters example_db) = Some example_character"
  by (simp add: example_db_def find_one_def matches_def field_matches_def example_character_fields)

lemma example_join:
  "join_campaign example_env example_request example_db =
     (Inr (JObj [''success'' \<mapsto> JBool True, ''campaignId'' \<mapsto> JStr ''K1'',
                 ''characterId'' \<mapsto> JStr ''CC1'']),
      example_joined_db)"
proof -
  have r: "inviteCode example_request = ''ABC123''" "odiserId example_request = ''U1''"
    "characterId example_request = ''C1''" "cc_id example_env = ''CC1''"
    "campaign_updatedAt example_env = ''t2''"
    by (simp_all add: example_request_def example_env_def)
  have ne: "example_campaign \<noteq> Map.empty" "example_character \<noteq> Map.empty"
    using find_one_nonempty[OF example_find_campaign(1)] find_one_nonempty[OF example_find_character]
    by simp_all
  have ju: "join_update ''U1'' (new_player_dump example_env example_request ''Gon'') ''t2''
              example_campaign = Inr example_joined_campaign"
    by (simp add: join_update_def op_push_def op_set_def bind_err_def example_campaign_fields
        example_joined_campaign_def example_player_def)
  have up: "update_one [(''id'', ''K1'')]
              (join_update ''U1'' (new_player_dump example_env example_request ''Gon'') ''t2'')
              (campaigns example_db) = Inr (1, [example_joined_campaign])"
    using find_one_matches[OF example_find_campaign(1)] ju
    by (simp add: example_db_def)
  have cs: "campaigns (example_db\<lparr>campaign_characters := x\<rparr>) = campaigns example_db" for x
    by simp
  show ?thesis
    by (simp add: join_campaign_def r example_find_campaign example_find_character ne
        example_campaign_fields example_character_fields dict_get_def Let_def insert_one_def
        cs up example_joined_db_def example_snapshot_def)
       (simp add: example_db_def)
qed

lemma example_joined_campaign_fields:
  "example_joined_campaign ''id'' = Some (JStr ''K1'')"
  "example_joined_campaign ''masterId'' = Some (JStr ''M1'')"
  "example_joined_campaign ''inviteCode'' = Some (JStr ''ABC123'')"
  "example_joined_campaign ''playerIds'' = Some (JList [JStr ''U1''])"
  "example_joined_campaign ''players'' = Some (JList [JObj example_player])"
  by (simp_all add: example_joined_campaign_def example_campaign_fields)

lemma example_find_joined_campaign:
  "find_one [(''id'', ''K1'')] (campaigns example_joined_db) = Some example_joined_campaign"
  "find_one [(''inviteCode'', ''ABC123'')] (campaigns example_joined_db)
     = Some example_joined_campaign"
  by (simp_all add: example_joined_db_def find_one_def matches_def field_matches_def
      example_joined_campaign_fields)

lemma example_request_fields:
  "inviteCode example_request = ''ABC123''"
  "odiserId example_request = ''U1''"
  "odiserName example_request = ''Killua''"
  "odiserEmail example_request = ''killua@example.org''"
  "characterId example_request = ''C1''"
  by (simp_all add: example_request_def)

section \<open>Joining a campaign\<close>

text \<open>
  C1, as amended. Let \<^verbatim>\<open>join_campaign\<close> succeed on the campaign found by the invite
  code, and let the id of that campaign retrieve that same document (as it does when ids
  are unique). Then the source Character exists; exactly one document
  is added to the CampaignCharacters, with the freshly drawn id and with \<open>data\<close> equal to
  the source Character document as the call read it; the campaign document, and no other,
  changes: one membership record (the user's id, name and email and the id of the new
  CampaignCharacter) is appended to \<open>players\<close>, the user's id is appended once to
  \<open>playerIds\<close>, and \<open>updatedAt\<close> is set to the time of the call; the result carries the
  campaign id and the id of the new CampaignCharacter; the other collections are as before.
\<close>

theorem join_campaign_success:
  assumes "join_campaign env input_data db = (Inr r, db')"
    and "find_one [(''inviteCode'', inviteCode input_data)] (campaigns db) = Some campaign"
    and "campaign ''id'' = Some (JStr cid)"
    and "find_one [(''id'', cid)] (campaigns db) = Some campaign"
  shows "\<exists>original_char character_name pre post.
           find_one [(''id'', characterId input_data)] (characters db) = Some original_char
         \<and> campaign_characters db' =
             campaign_characters db @ [campaign_char_dump env cid input_data original_char]
         \<and> campaign_char_dump env cid input_data original_char ''data'' = Some (JObj original_char)
         \<and> campaign_char_dump env cid input_data original_char ''id'' = Some (JStr (cc_id env))
         \<and> campaigns db = pre @ campaign # post
         \<and> campaigns db' =
             pre @ campaign
                    (''playerIds'' \<mapsto>
                       JList (list_field campaign ''playerIds'' @ [JStr (odiserId input_data)]),
                     ''players'' \<mapsto>
                       JList (list_field campaign ''players'' @
                              [JObj (new_player_dump env input_data character_name)]),
                     ''updatedAt'' \<mapsto> JStr (campaign_updatedAt env)) # post
         \<and> new_player_dump env input_data character_name ''odiserId''
             = Some (JStr (odiserId input_data))
         \<and> new_player_dump env input_data character_name ''odiserName''
             = Some (JStr (odiserName input_data))
         \<and> new_player_dump env input_data character_name ''odiserEmail''
             = Some (JStr (odiserEmail input_data))
         \<and> new_player_dump env input_data character_name ''characterId''
             = Some (JStr (cc_id env))
         \<and> r = JObj [''success'' \<mapsto> JBool True, ''campaignId'' \<mapsto> JStr cid,
                     ''characterId'' \<mapsto> JStr (cc_id env)]
         \<and> characters db' = characters db \<and> threats db' = threats db
         \<and> rolls db' = rolls db \<and> campaign_rolls db' = campaign_rolls db"
proof -
  from join_campaign_Inr[OF assms(1)] assms(2,3)
  obtain original_char character_name n cs where
    ch: "find_one [(''id'', characterId input_data)] (characters db) = Some original_char"
    and up: "update_one [(''id'', cid)]
              (join_update (odiserId input_data) (new_player_dump env input_data character_name)
                 (campaign_updatedAt env))
              (campaigns db) = Inr (n, cs)"
    and r: "r = JObj [''success'' \<mapsto> JBool True, ''campaignId'' \<mapsto> JStr cid,
                     ''characterId'' \<mapsto> JStr (cc_id env)]"
    and db': "db' = db\<lparr>campaign_characters :=
                       campaign_characters db @ [campaign_char_dump env cid input_data original_char],
                     campaigns := cs\<rparr>"
    by auto
  from find_one_split[OF assms(4)] obtain pre post where
    s: "campaigns db = pre @ campaign # post"
    and p: "list_all (\<lambda>x. \<not> matches [(''id'', cid)] x) pre"
    and m: "matches [(''id'', cid)] campaign"
    by blast
  from up obtain campaign' where
    ju: "join_update (odiserId input_data) (new_player_dump env input_data character_name)
           (campaign_updatedAt env) campaign = Inr campaign'"
    and cs: "cs = pre @ campaign' # post"
    by (auto simp: s update_one_at[OF p m] split: sum.splits)
  note join_update_Inr[OF ju]
  with cs s ch r db' show ?thesis
    by (intro exI[of _ original_char] exI[of _ character_name] exI[of _ pre] exI[of _ post])
       (simp add: campaign_char_dump_def new_player_dump_def)
qed

theorem join_campaign_success_witness:
  "\<exists>original_char character_name pre post.
     find_one [(''id'', characterId example_request)] (characters example_db) = Some original_char
   \<and> campaign_characters example_joined_db =
       campaign_characters example_db @
         [campaign_char_dump example_env ''K1'' example_request original_char]
   \<and> campaign_char_dump example_env ''K1'' example_request original_char ''data''
       = Some (JObj original_char)
   \<and> campaign_char_dump example_env ''K1'' example_request original_char ''id''
       = Some (JStr (cc_id example_env))
   \<and> campaigns example_db = pre @ example_campaign # post
   \<and> campaigns example_joined_db =
       pre @ example_campaign
              (''playerIds'' \<mapsto>
                 JList (list_field example_campaign ''playerIds'' @
                        [JStr (odiserId example_request)]),
               ''players'' \<mapsto>
                 JList (list_field example_campaign ''players'' @
                        [JObj (new_player_dump example_env example_request character_name)]),
               ''updatedAt'' \<mapsto> JStr (campaign_updatedAt example_env)) # post
   \<and> new_player_dump example_env example_request character_name ''odiserId''
       = Some (JStr (odiserId example_request))
   \<and> new_player_dump example_env example_request character_name ''odiserName''
       = Some (JStr (odiserName example_request))
   \<and> new_player_dump example_env example_request character_name ''odiserEmail''
       = Some (JStr (odiserEmail example_request))
   \<and> new_player_dump example_env example_request character_name ''characterId''
       = Some (JStr (cc_id example_env))
   \<and> JObj [''success'' \<mapsto> JBool True, ''campaignId'' \<mapsto> JStr ''K1'',
            ''characterId'' \<mapsto> JStr ''CC1'']
       = JObj [''success'' \<mapsto> JBool True, ''campaignId'' \<mapsto> JStr ''K1'',
               ''characterId'' \<mapsto> JStr (cc_id example_env)]
   \<and> characters example_joined_db = characters example_db
   \<and> threats example_joined_db = threats example_db
   \<and> rolls example_joined_db = rolls example_db
   \<and> campaign_rolls example_joined_db = campaign_rolls example_db"
  by (rule join_campaign_success[OF example_join])
     (simp_all add: example_request_fields example_find_campaign example_campaign_fields)

text \<open>
  C4, as amended. \<^verbatim>\<open>join_campaign\<close> raises the first failure that applies, in this order, and returns
  the store as it was: no campaign with the invite code (404); the user is the master of
  the campaign found (400, "You are the master of this campaign"), whether or not the
  later checks would fail as well; the user is in its \<open>playerIds\<close> (400, "You are already
  in this campaign"), whether or not the character exists; the source character does not
  exist (404). After a successful join on a campaign whose id retrieves that same
  document (as it does when ids are unique), a second join with the same invite code and
  user id fails at the third check.
\<close>

theorem join_campaign_failure_order:
  "(find_one [(''inviteCode'', inviteCode input_data)] (campaigns db) = None \<longrightarrow>
      join_campaign env input_data db =
        (Inl (HTTPException 404 ''Invalid invite code''), db))
   \<and> (find_one [(''inviteCode'', inviteCode input_data)] (campaigns db) = Some campaign \<and>
      campaign ''masterId'' = Some (JStr (odiserId input_data)) \<longrightarrow>
      join_campaign env input_data db =
        (Inl (HTTPException 400 ''You are the master of this campaign''), db))
   \<and> (find_one [(''inviteCode'', inviteCode input_data)] (campaigns db) = Some campaign \<and>
      campaign ''masterId'' = Some m \<and> m \<noteq> JStr (odiserId input_data) \<and>
      campaign ''playerIds'' = Some (JList ids) \<and> JStr (odiserId input_data) \<in> set ids \<longrightarrow>
      join_campaign env input_data db =
        (Inl (HTTPException 400 ''You are already in this campaign''), db))
   \<and> (find_one [(''inviteCode'', inviteCode input_data)] (campaigns db) = Some campaign \<and>
      campaign ''masterId'' = Some m \<and> m \<noteq> JStr (odiserId input_data) \<and>
      campaign ''playerIds'' = Some (JList ids) \<and> JStr (odiserId input_data) \<notin> set ids \<and>
      find_one [(''id'', characterId input_data)] (characters db) = None \<longrightarrow>
      join_campaign env input_data db =
        (Inl (HTTPException 404 ''Character not found''), db))
   \<and> (join_campaign env input_data db = (Inr r, db') \<and>
      find_one [(''inviteCode'', inviteCode input_data)] (campaigns db) = Some campaign \<and>
      campaign ''id'' = Some (JStr cid) \<and>
      find_one [(''id'', cid)] (campaigns db) = Some campaign \<and>
      inviteCode input2 = inviteCode input_data \<and> odiserId input2 = odiserId input_data \<longrightarrow>
      join_campaign env2 input2 db' =
        (Inl (HTTPException 400 ''You are already in this campaign''), db'))"
proof (intro conjI impI; (elim conjE)?)
  assume "find_one [(''inviteCode'', inviteCode input_data)] (campaigns db) = None"
  then show "join_campaign env input_data db =
        (Inl (HTTPException 404 ''Invalid invite code''), db)"
    by (simp add: join_campaign_def)
next
  assume f: "find_one [(''inviteCode'', inviteCode input_data)] (campaigns db) = Some campaign"
    and "campaign ''masterId'' = Some (JStr (odiserId input_data))"
  then show "join_campaign env input_data db =
        (Inl (HTTPException 400 ''You are the master of this campaign''), db)"
    using find_one_nonempty[OF f] by (simp add: join_campaign_def)
next
  assume f: "find_one [(''inviteCode'', inviteCode input_data)] (campaigns db) = Some campaign"
    and "campaign ''masterId'' = Some m" "m \<noteq> JStr (odiserId input_data)"
      "campaign ''playerIds'' = Some (JList ids)" "JStr (odiserId input_data) \<in> set ids"
  then show "join_campaign env input_data db =
        (Inl (HTTPException 400 ''You are already in this campaign''), db)"
    using find_one_nonempty[OF f] by (simp add: join_campaign_def dict_get_def)
next
  assume f: "find_one [(''inviteCode'', inviteCode input_data)] (campaigns db) = Some campaign"
    and "campaign ''masterId'' = Some m" "m \<noteq> JStr (odiserId input_data)"
      "campaign ''playerIds'' = Some (JList ids)" "JStr (odiserId input_data) \<notin> set ids"
      "find_one [(''id'', characterId input_data)] (characters db) = None"
  then show "join_campaign env input_data db =
        (Inl (HTTPException 404 ''Character not found''), db)"
    using find_one_nonempty[OF f] by (simp add: join_campaign_def dict_get_def)
next
  assume "join_campaign env input_data db = (Inr r, db')"
    "find_one [(''inviteCode'', inviteCode input_data)] (campaigns db) = Some campaign"
    "campaign ''id'' = Some (JStr cid)"
    "find_one [(''id'', cid)] (campaigns db) = Some campaign"
    "inviteCode input2 = inviteCode input_data" "odiserId input2 = odiserId input_data"
  then show "join_campaign env2 input2 db' =
        (Inl (HTTPException 400 ''You are already in this campaign''), db')"
    by (rule join_campaign_again)
qed

theorem join_campaign_failure_order_witness:
  "join_campaign example_env (example_request\<lparr>inviteCode := ''ZZZ999''\<rparr>) example_db =
     (Inl (HTTPException 404 ''Invalid invite code''), example_db)
   \<and> join_campaign example_env (example_request\<lparr>odiserId := ''M1'', characterId := ''C9''\<rparr>)
       example_db =
     (Inl (HTTPException 400 ''You are the master of this campaign''), example_db)
   \<and> join_campaign example_env (example_request\<lparr>characterId := ''C9''\<rparr>) example_joined_db =
     (Inl (HTTPException 400 ''You are already in this campaign''), example_joined_db)
   \<and> join_campaign example_env (example_request\<lparr>characterId := ''C9''\<rparr>) example_db =
     (Inl (HTTPException 404 ''Character not found''), example_db)
   \<and> join_campaign example_env example_request example_joined_db =
     (Inl (HTTPException 400 ''You are already in this campaign''), example_joined_db)"
proof -
  have no_code: "find_one [(''inviteCode'', ''ZZZ999'')] (campaigns example_db) = None"
    by (simp add: example_db_def find_one_def matches_def field_matches_def
        example_campaign_fields)
  have no_char: "find_one [(''id'', ''C9'')] (characters example_db) = None"
    by (simp add: example_db_def find_one_def matches_def field_matches_def
        example_character_fields)
  have a: "join_campaign example_env (example_request\<lparr>inviteCode := ''ZZZ999''\<rparr>) example_db =
     (Inl (HTTPException 404 ''Invalid invite code''), example_db)"
    using join_campaign_failure_order
            [where input_data = "example_request\<lparr>inviteCode := ''ZZZ999''\<rparr>"
               and db = example_db and env = example_env]
          no_code
    by simp
  have b: "join_campaign example_env (example_request\<lparr>odiserId := ''M1'', characterId := ''C9''\<rparr>)
       example_db =
     (Inl (HTTPException 400 ''You are the master of this campaign''), example_db)"
    using join_campaign_failure_order
            [where input_data = "example_request\<lparr>odiserId := ''M1'', characterId := ''C9''\<rparr>"
               and db = example_db and env = example_env and campaign = example_campaign]
    by (simp add: example_request_fields example_find_campaign example_campaign_fields)
  have c: "join_campaign example_env (example_request\<lparr>characterId := ''C9''\<rparr>) example_joined_db =
     (Inl (HTTPException 400 ''You are already in this campaign''), example_joined_db)"
    using join_campaign_failure_order
            [where input_data = "example_request\<lparr>characterId := ''C9''\<rparr>"
               and db = example_joined_db and env = example_env
               and campaign = example_joined_campaign and m = "JStr ''M1''"
               and ids = "[JStr ''U1'']"]
    by (simp add: example_request_fields example_find_joined_campaign
        example_joined_campaign_fields)
  have d: "join_campaign example_env (example_request\<lparr>characterId := ''C9''\<rparr>) example_db =
     (Inl (HTTPException 404 ''Character not found''), example_db)"
    using join_campaign_failure_order
            [where input_data = "example_request\<lparr>characterId := ''C9''\<rparr>"
               and db = example_db and env = example_env
               and campaign = example_campaign and m = "JStr ''M1''" and ids = "[]"]
          no_char
    by (simp add: example_request_fields example_find_campaign example_campaign_fields)
  have e: "join_campaign example_env example_request example_joined_db =
     (Inl (HTTPException 400 ''You are already in this campaign''), example_joined_db)"
    using join_campaign_failure_order
            [where input_data = example_request and db = example_db and env = example_env
               and campaign = example_campaign and cid = "''K1''" and db' = example_joined_db
               and r = "JObj [''success'' \<mapsto> JBool True, ''campaignId'' \<mapsto> JStr ''K1'',
                              ''characterId'' \<mapsto> JStr ''CC1'']"
               and ?input2.0 = example_request and ?env2.0 = example_env]
          example_join
    by (simp add: example_request_fields example_find_campaign example_campaign_fields)
  from a b c d e show ?thesis by simp
qed

section \<open>The membership lists stay in sync\<close>

lemma update_one_preserves:
  assumes "list_all P coll"
    and "\<And>d d'. P d \<Longrightarrow> upd d = Inr d' \<Longrightarrow> P d'"
    and "update_one q upd coll = Inr (n, coll')"
  shows "list_all P coll'"
  using assms(1,3)
proof (induction coll arbitrary: n coll')
  case Nil
  then show ?case by simp
next
  case (Cons a coll)
  then show ?case
    by (auto split: if_splits sum.splits prod.splits intro: assms(2))
qed

lemma delete_one_preserves: "list_all P coll \<Longrightarrow> list_all P (delete_one q coll)"
  by (induction coll) auto

lemma in_sync_campaign_dump:
  "in_sync (campaign_dump new_id invite_code created_at updated_at input_data)"
  by (simp add: in_sync_def campaign_dump_def)

lemma in_sync_join_update:
  assumes "in_sync d" and "new_player ''odiserId'' = Some (JStr user_id)"
    and "join_update user_id new_player now d = Inr d'"
  shows "in_sync d'"
proof -
  from assms(1) obtain ps where
    ps: "d ''players'' = Some (JList ps)" "list_all is_player ps"
      "d ''playerIds'' = Some (JList (map player_user ps))"
    by (auto simp: in_sync_def split: option.splits json.splits)
  have "is_player (JObj new_player)" "player_user (JObj new_player) = JStr user_id"
    using assms(2) by (simp_all add: is_player_def player_user_def dict_get_def)
  with join_update_Inr[OF assms(3)] ps show ?thesis
    by (simp add: in_sync_def list_field_def)
qed

lemma pull_agree:
  "list_all is_player ps \<Longrightarrow>
     map player_user (filter (\<lambda>p. \<not> pull_query [(''odiserId'', user_id)] p) ps)
       = filter (\<lambda>x. \<not> pull_value (JStr user_id) x) (map player_user ps)"
  by (induction ps)
     (auto simp: is_player_def player_user_def pull_query_def pull_value_def matches_def
        field_matches_def dict_get_def split: json.splits option.splits)

lemma in_sync_leave_update:
  assumes "in_sync d" and "leave_update user_id now d = Inr d'"
  shows "in_sync d'"
proof -
  from assms(1) obtain ps where
    ps: "d ''players'' = Some (JList ps)" "list_all is_player ps"
      "d ''playerIds'' = Some (JList (map player_user ps))"
    by (auto simp: in_sync_def split: option.splits json.splits)
  have keep: "list_all is_player (filter (\<lambda>p. \<not> pull_query [(''odiserId'', user_id)] p) ps)"
    using ps(2) by (simp add: list_all_iff)
  from assms(2) ps have
    "d' = d(''playerIds'' \<mapsto>
              JList (filter (\<lambda>x. \<not> pull_value (JStr user_id) x) (map player_user ps)),
            ''players'' \<mapsto>
              JList (filter (\<lambda>p. \<not> pull_query [(''odiserId'', user_id)] p) ps),
            ''updatedAt'' \<mapsto> JStr now)"
    by (auto simp: leave_update_def op_pull_def op_set_def bind_err_def)
  with keep pull_agree[OF ps(2), of user_id] show ?thesis
    by (simp add: in_sync_def)
qed

lemma in_sync_create:
  "list_all in_sync (campaigns db) \<Longrightarrow>
     list_all in_sync
       (campaigns (snd (create_campaign new_id invite_code created_at updated_at input_data db)))"
  by (simp add: create_campaign_def Let_def insert_one_def in_sync_campaign_dump)

lemma in_sync_join:
  assumes "list_all in_sync (campaigns db)"
  shows "list_all in_sync (campaigns (snd (join_campaign env request db)))"
proof -
  have "campaigns (snd (join_campaign env request db)) = campaigns db
      \<or> (\<exists>cid character_name n.
            update_one [(''id'', cid)]
              (join_update (odiserId request) (new_player_dump env request character_name)
                 (campaign_updatedAt env))
              (campaigns db) = Inr (n, campaigns (snd (join_campaign env request db))))"
    by (auto simp: join_campaign_def Let_def
        split: option.splits if_splits sum.splits bool.splits json.splits prod.splits)
  then show ?thesis
  proof
    assume "campaigns (snd (join_campaign env request db)) = campaigns db"
    with assms show ?thesis by simp
  next
    assume "\<exists>cid character_name n.
            update_one [(''id'', cid)]
              (join_update (odiserId request) (new_player_dump env request character_name)
                 (campaign_updatedAt env))
              (campaigns db) = Inr (n, campaigns (snd (join_campaign env request db)))"
    then obtain cid character_name n where
      u: "update_one [(''id'', cid)]
              (join_update (odiserId request) (new_player_dump env request character_name)
                 (campaign_updatedAt env))
              (campaigns db) = Inr (n, campaigns (snd (join_campaign env request db)))"
      by blast
    have p: "new_player_dump env request character_name ''odiserId''
               = Some (JStr (odiserId request))"
      by (simp add: new_player_dump_def)
    have step: "in_sync d'" if "in_sync d"
      "join_update (odiserId request) (new_player_dump env request character_name)
         (campaign_updatedAt env) d = Inr d'" for d d'
      using that p by (blast intro: in_sync_join_update)
    show ?thesis
      by (rule update_one_preserves[OF assms step u])
  qed
qed

lemma in_sync_leave:
  assumes "list_all in_sync (campaigns db)"
  shows "list_all in_sync (campaigns (snd (leave_campaign now campaign_id user_id db)))"
proof -
  have "campaigns (snd (leave_campaign now campaign_id user_id db)) = campaigns db
      \<or> (\<exists>n. update_one [(''id'', campaign_id)] (leave_update user_id now) (campaigns db)
               = Inr (n, campaigns (snd (leave_campaign now campaign_id user_id db))))"
    by (auto simp: leave_campaign_def split: option.splits if_splits sum.splits prod.splits)
  then show ?thesis
  proof
    assume "campaigns (snd (leave_campaign now campaign_id user_id db)) = campaigns db"
    with assms show ?thesis by simp
  next
    assume "\<exists>n. update_one [(''id'', campaign_id)] (leave_update user_id now) (campaigns db)
               = Inr (n, campaigns (snd (leave_campaign now campaign_id user_id db)))"
    then obtain n where
      u: "update_one [(''id'', campaign_id)] (leave_update user_id now) (campaigns db)
               = Inr (n, campaigns (snd (leave_campaign now campaign_id user_id db)))"
      by blast
    have step: "in_sync d'" if "in_sync d" "leave_update user_id now d = Inr d'" for d d'
      using that by (rule in_sync_leave_update)
    show ?thesis
      by (rule update_one_preserves[OF assms step u])
  qed
qed

lemma in_sync_delete:
  "list_all in_sync (campaigns db) \<Longrightarrow>
     list_all in_sync (campaigns (snd (delete_campaign campaign_id master_id db)))"
  by (auto simp: delete_campaign_def delete_one_preserves split: option.splits)

lemma campaigns_update_character:
  "campaigns (snd (update_character encode_error store_set now character_id update_data db))
     = campaigns db"
  by (simp add: update_character_def Let_def split: sum.splits prod.splits option.splits)

lemma campaigns_update_campaign_character:
  "campaigns
     (snd (update_campaign_character encode_error now1 now2 campaign_id character_id
             update_data db))
     = campaigns db"
  by (simp add: update_campaign_character_def Let_def
      split: sum.splits prod.splits option.splits)

lemma reachable_in_sync: "reachable db \<Longrightarrow> list_all in_sync (campaigns db)"
proof (induction rule: reachable.induct)
  case (initial db)
  then show ?case by simp
next
  case (create db new_id invite_code created_at updated_at input_data)
  from create.IH show ?case by (rule in_sync_create)
next
  case (join db env request)
  from join.IH show ?case by (rule in_sync_join)
next
  case (leave db now campaign_id user_id)
  from leave.IH show ?case by (rule in_sync_leave)
next
  case (delete db campaign_id master_id)
  from delete.IH show ?case by (rule in_sync_delete)
next
  case (edit_character db encode_error store_set now character_id update_data)
  then show ?case by (simp add: campaigns_update_character)
next
  case (edit_snapshot db encode_error now1 now2 campaign_id character_id update_data)
  then show ?case by (simp add: campaigns_update_campaign_character)
qed

lemma example_reachable: "reachable example_joined_db"
proof -
  define db0 where "db0 = example_db\<lparr>campaigns := []\<rparr>"
  have "reachable db0" by (rule reachable.initial) (simp add: db0_def)
  then have "reachable (snd (create_campaign ''K1'' ''ABC123'' ''t0'' ''t0''
       \<lparr>name = ''Greed Island'', description = [], masterId = ''M1'',
        masterName = ''Ging'', masterEmail = []\<rparr> db0))"
    by (rule reachable.create)
  moreover have "snd (create_campaign ''K1'' ''ABC123'' ''t0'' ''t0''
       \<lparr>name = ''Greed Island'', description = [], masterId = ''M1'',
        masterName = ''Ging'', masterEmail = []\<rparr> db0) = example_db"
    by (simp add: create_campaign_def Let_def insert_one_def db0_def example_db_def
        example_campaign_def)
  ultimately have "reachable example_db" by simp
  then have "reachable (snd (join_campaign example_env example_request example_db))"
    by (rule reachable.join)
  then show ?thesis by (simp add: example_join)
qed

text \<open>
  C3. In every store reached from one without campaigns by creating campaigns, joining
  and leaving (and by the other handlers modelled, in any order), every campaign document
  holds a list \<open>players\<close> and a list \<open>playerIds\<close>, and \<open>playerIds\<close> is the list of the
  \<open>odiserId\<close> values of \<open>players\<close>, element for element in the same order.
\<close>

theorem player_ids_in_sync:
  assumes "reachable db" and "campaign \<in> set (campaigns db)"
  shows "\<exists>ps. campaign ''players'' = Some (JList ps)
            \<and> campaign ''playerIds'' = Some (JList (map player_user ps))"
proof -
  from reachable_in_sync[OF assms(1)] assms(2) have "in_sync campaign"
    by (simp add: list_all_iff)
  then show ?thesis
    by (auto simp: in_sync_def split: option.splits json.splits)
qed

theorem player_ids_in_sync_witness:
  "\<exists>ps. example_joined_campaign ''players'' = Some (JList ps)
        \<and> example_joined_campaign ''playerIds'' = Some (JList (map player_user ps))"
  by (rule player_ids_in_sync[OF example_reachable]) (simp add: example_joined_db_def)

section \<open>Player statistics\<close>

lemma project_stats_top:
  "project stats_projection char ''odiserId'' = char ''odiserId''"
  "project stats_projection char ''id'' = char ''id''"
  "project stats_projection char ''updatedAt'' = char ''updatedAt''"
  "project stats_projection char ''data'' =
     (case char ''data'' of
        None \<Rightarrow> None
      | Some v \<Rightarrow> project_value v [(''name'', Incl),
                                  (''resources'', Sub [(''pv'', Incl), (''pa'', Incl)])])"
  by (simp_all add: project_def stats_projection_def)

lemma stat_entry_no_data:
  assumes "c ''data'' = None"
  shows "stat_entry c =
     Inr [''odiserId'' \<mapsto> dict_get c ''odiserId'' JNull,
          ''characterId'' \<mapsto> dict_get c ''id'' JNull,
          ''characterName'' \<mapsto> JStr ''Unknown'',
          ''pv'' \<mapsto> zero_resource,
          ''pa'' \<mapsto> zero_resource,
          ''updatedAt'' \<mapsto> dict_get c ''updatedAt'' JNull]"
  using assms by (simp add: stat_entry_def Let_def dict_get_def attr_get_def bind_err_def)

lemma stat_entry_data_list:
  assumes "c ''data'' = Some (JList xs)"
  shows "stat_entry c = Inl AttributeError"
  using assms by (simp add: stat_entry_def Let_def dict_get_def attr_get_def bind_err_def)

lemma stat_entry_data_obj:
  assumes "c ''data'' = Some (JObj data)"
  shows "stat_entry c =
     (case dict_get data ''resources'' (JObj Map.empty) of
        JObj res \<Rightarrow>
          Inr [''odiserId'' \<mapsto> dict_get c ''odiserId'' JNull,
               ''characterId'' \<mapsto> dict_get c ''id'' JNull,
               ''characterName'' \<mapsto> dict_get data ''name'' (JStr ''Unknown''),
               ''pv'' \<mapsto> dict_get res ''pv'' zero_resource,
               ''pa'' \<mapsto> dict_get res ''pa'' zero_resource,
               ''updatedAt'' \<mapsto> dict_get c ''updatedAt'' JNull]
      | _ \<Rightarrow> Inl AttributeError)"
  using assms
  by (simp add: stat_entry_def Let_def attr_get_def bind_err_def dict_get_def[of c]
      split: json.splits)

lemma stat_entry_project:
  "stat_entry (project stats_projection char) =
     (if stats_readable char then Inr (summary char) else Inl AttributeError)"
proof (cases "char ''data''")
  case None
  then have "project stats_projection char ''data'' = None"
    by (simp add: project_stats_top)
  from stat_entry_no_data[of "project stats_projection char", OF this] None show ?thesis
    by (simp add: project_stats_top dict_get_def summary_def path_or_def stats_readable_def)
next
  case (Some v)
  show ?thesis
  proof (cases v)
    case (JList xs)
    with Some have "project stats_projection char ''data'' =
        Some (JList (List.map_filter
               (\<lambda>f. f [(''name'', Incl), (''resources'', Sub [(''pv'', Incl), (''pa'', Incl)])])
               (map project_value xs)))"
      by (simp add: project_stats_top)
    from stat_entry_data_list[of "project stats_projection char", OF this] Some JList show ?thesis
      by (simp add: stats_readable_def)
  next
    case (JObj data)
    define pdata where
      "pdata = (\<lambda>k. case map_of [(''name'', Incl),
                                    (''resources'', Sub [(''pv'', Incl), (''pa'', Incl)])] k of
                       None \<Rightarrow> None
                     | Some Incl \<Rightarrow> data k
                     | Some (Sub s) \<Rightarrow>
                         (case map_option project_value (data k) of
                            None \<Rightarrow> None
                          | Some f \<Rightarrow> f s))"
    have pn: "pdata ''name'' = data ''name''"
      by (simp add: pdata_def)
    have pr: "pdata ''resources'' =
        (case data ''resources'' of
           None \<Rightarrow> None
         | Some r \<Rightarrow> project_value r [(''pv'', Incl), (''pa'', Incl)])"
      by (simp add: pdata_def split: option.splits)
    from Some JObj have "project stats_projection char ''data'' = Some (JObj pdata)"
      by (simp add: project_stats_top pdata_def)
    note e = stat_entry_data_obj[of "project stats_projection char", OF this]
    have ln: "path_or char [''data'', ''name''] (JStr ''Unknown'')
                = dict_get data ''name'' (JStr ''Unknown'')"
      using Some JObj by (simp add: path_or_def dict_get_def split: option.splits)
    show ?thesis
    proof (cases "data ''resources''")
      case None
      with pr have "dict_get pdata ''resources'' (JObj Map.empty) = JObj Map.empty"
        by (simp add: dict_get_def)
      with e Some JObj None ln show ?thesis
        by (simp add: project_stats_top dict_get_def summary_def stats_readable_def path_or_def pn)
    next
      case rs: (Some r)
      show ?thesis
      proof (cases r)
        case (JList ys)
        with pr rs have "dict_get pdata ''resources'' (JObj Map.empty) =
            JList (List.map_filter (\<lambda>f. f [(''pv'', Incl), (''pa'', Incl)]) (map project_value ys))"
          by (simp add: dict_get_def)
        with e Some JObj rs JList show ?thesis
          by (simp add: stats_readable_def)
      next
        case res: (JObj res)
        define pres where
          "pres = (\<lambda>k. case map_of [(''pv'', Incl), (''pa'', Incl)] k of
                          None \<Rightarrow> None
                        | Some Incl \<Rightarrow> res k
                        | Some (Sub s) \<Rightarrow>
                            (case map_option project_value (res k) of
                               None \<Rightarrow> None
                             | Some f \<Rightarrow> f s))"
        have pp: "pres ''pv'' = res ''pv''" "pres ''pa'' = res ''pa''"
          by (simp_all add: pres_def)
        from pr rs res have "dict_get pdata ''resources'' (JObj Map.empty) = JObj pres"
          by (simp add: dict_get_def pres_def)
        with e Some JObj rs res ln show ?thesis
          by (simp add: project_stats_top dict_get_def pn pp summary_def stats_readable_def path_or_def
              split: option.splits)
      next
        case JNull
        with pr rs have "dict_get pdata ''resources'' (JObj Map.empty) = JObj Map.empty"
          by (simp add: dict_get_def)
        with e Some JObj rs JNull ln show ?thesis
          by (simp add: project_stats_top dict_get_def summary_def stats_readable_def path_or_def pn)
      next
        case (JBool b)
        with pr rs have "dict_get pdata ''resources'' (JObj Map.empty) = JObj Map.empty"
          by (simp add: dict_get_def)
        with e Some JObj rs JBool ln show ?thesis
          by (simp add: project_stats_top dict_get_def summary_def stats_readable_def path_or_def pn)
      next
        case (JInt i)
        with pr rs have "dict_get pdata ''resources'' (JObj Map.empty) = JObj Map.empty"
          by (simp add: dict_get_def)
        with e Some JObj rs JInt ln show ?thesis
          by (simp add: project_stats_top dict_get_def summary_def stats_readable_def path_or_def pn)
      next
        case (JFloat x)
        with pr rs have "dict_get pdata ''resources'' (JObj Map.empty) = JObj Map.empty"
          by (simp add: dict_get_def)
        with e Some JObj rs JFloat ln show ?thesis
          by (simp add: project_stats_top dict_get_def summary_def stats_readable_def path_or_def pn)
      next
        case (JStr t)
        with pr rs have "dict_get pdata ''resources'' (JObj Map.empty) = JObj Map.empty"
          by (simp add: dict_get_def)
        with e Some JObj rs JStr ln show ?thesis
          by (simp add: project_stats_top dict_get_def summary_def stats_readable_def path_or_def pn)
      qed
    qed
  next
    case JNull
    with Some have "project stats_projection char ''data'' = None"
      by (simp add: project_stats_top)
    from stat_entry_no_data[of "project stats_projection char", OF this] Some JNull show ?thesis
      by (simp add: project_stats_top dict_get_def summary_def path_or_def stats_readable_def)
  next
    case (JBool b)
    with Some have "project stats_projection char ''data'' = None"
      by (simp add: project_stats_top)
    from stat_entry_no_data[of "project stats_projection char", OF this] Some JBool show ?thesis
      by (simp add: project_stats_top dict_get_def summary_def path_or_def stats_readable_def)
  next
    case (JInt i)
    with Some have "project stats_projection char ''data'' = None"
      by (simp add: project_stats_top)
    from stat_entry_no_data[of "project stats_projection char", OF this] Some JInt show ?thesis
      by (simp add: project_stats_top dict_get_def summary_def path_or_def stats_readable_def)
  next
    case (JFloat x)
    with Some have "project stats_projection char ''data'' = None"
      by (simp add: project_stats_top)
    from stat_entry_no_data[of "project stats_projection char", OF this] Some JFloat show ?thesis
      by (simp add: project_stats_top dict_get_def summary_def path_or_def stats_readable_def)
  next
    case (JStr t)
    with Some have "project stats_projection char ''data'' = None"
      by (simp add: project_stats_top)
    from stat_entry_no_data[of "project stats_projection char", OF this] Some JStr show ?thesis
      by (simp add: project_stats_top dict_get_def summary_def path_or_def stats_readable_def)
  qed
qed

lemma stats_loop_project:
  "stats_loop acc (map (project stats_projection) cs) =
     (if list_all stats_readable cs then Inr (acc @ map summary cs) else Inl AttributeError)"
  by (induction cs arbitrary: acc) (simp_all add: stat_entry_project)

lemma get_player_stats_eq:
  "get_player_stats campaign_id db =
     (if list_all stats_readable
           (take 100 (find_many [(''campaignId'', campaign_id)] (campaign_characters db)))
      then Inr (map summary
             (take 100 (find_many [(''campaignId'', campaign_id)] (campaign_characters db))))
      else Inl AttributeError,
      db)"
  by (simp add: get_player_stats_def Let_def take_map stats_loop_project)

lemma example_snapshot_readable: "stats_readable example_snapshot"
  by (simp add: stats_readable_def example_snapshot_fields example_character_def)

lemma example_find_snapshots:
  "find_many [(''campaignId'', ''K1'')] (campaign_characters example_joined_db)
     = [example_snapshot]"
  by (simp add: example_joined_db_def find_many_def matches_def field_matches_def
      example_snapshot_fields)

lemma crowd_member_matches: "matches [(''campaignId'', ''K1'')] (crowd_member i)"
  by (simp add: matches_def field_matches_def crowd_member_def example_snapshot_fields)

lemma crowd_member_readable: "stats_readable (crowd_member i)"
  by (simp add: stats_readable_def crowd_member_def example_snapshot_fields
      example_character_def)

lemma crowd_found:
  "find_many [(''campaignId'', ''K1'')] (campaign_characters example_crowded_db)
     = map crowd_member [0..<101]"
  by (simp add: example_crowded_db_def find_many_def crowd_member_matches)

text \<open>
  C6, as amended. \<^verbatim>\<open>get_player_stats\<close> returns the store as it was. It reads at most the
  first 100 CampaignCharacters of the campaign, in the order of the collection. When none
  of them holds an array at \<open>data\<close> or \<open>data.resources\<close>, it returns exactly one summary
  for each of those documents, in the same order, so \<open>N\<close> CampaignCharacters yield
  \<open>min N 100\<close> summaries; and whenever it returns a list, it is that list. A summary holds the
  user id, the CampaignCharacter id, the name, \<open>pv\<close>, \<open>pa\<close> and \<open>updatedAt\<close>; a document
  with nothing at \<open>data.name\<close> gets the name \<open>Unknown\<close>, and one with nothing at
  \<open>data.resources.pv\<close> gets \<open>{current: 0, max: 0}\<close> for \<open>pv\<close>.
\<close>

theorem get_player_stats_summaries:
  "snd (get_player_stats campaign_id db) = db
   \<and> (list_all stats_readable
         (take 100 (find_many [(''campaignId'', campaign_id)] (campaign_characters db))) \<longrightarrow>
       fst (get_player_stats campaign_id db) =
         Inr (map summary
                (take 100 (find_many [(''campaignId'', campaign_id)] (campaign_characters db))))
       \<and> length (map summary
                (take 100 (find_many [(''campaignId'', campaign_id)] (campaign_characters db))))
           = min (length (find_many [(''campaignId'', campaign_id)] (campaign_characters db)))
               100)
   \<and> (fst (get_player_stats campaign_id db) = Inr stats \<longrightarrow>
       stats = map summary
                 (take 100 (find_many [(''campaignId'', campaign_id)] (campaign_characters db)))
       \<and> length stats =
           min (length (find_many [(''campaignId'', campaign_id)] (campaign_characters db))) 100)
   \<and> (lookup_path (JObj char) [''data'', ''name''] = None \<longrightarrow>
       summary char ''characterName'' = Some (JStr ''Unknown''))
   \<and> (lookup_path (JObj char) [''data'', ''resources'', ''pv''] = None \<longrightarrow>
       summary char ''pv'' = Some zero_resource)"
proof (intro conjI impI)
  show "snd (get_player_stats campaign_id db) = db"
    by (simp add: get_player_stats_eq)
next
  assume "list_all stats_readable
         (take 100 (find_many [(''campaignId'', campaign_id)] (campaign_characters db)))"
  then show "fst (get_player_stats campaign_id db) =
         Inr (map summary
                (take 100 (find_many [(''campaignId'', campaign_id)] (campaign_characters db))))"
    by (simp add: get_player_stats_eq)
next
  show "length (map summary
                (take 100 (find_many [(''campaignId'', campaign_id)] (campaign_characters db))))
           = min (length (find_many [(''campaignId'', campaign_id)] (campaign_characters db)))
               100"
    by simp
next
  assume a: "fst (get_player_stats campaign_id db) = Inr stats"
  then show s: "stats = map summary
                 (take 100 (find_many [(''campaignId'', campaign_id)] (campaign_characters db)))"
    by (simp add: get_player_stats_eq split: if_splits)
  then show "length stats =
           min (length (find_many [(''campaignId'', campaign_id)] (campaign_characters db))) 100"
    by simp
next
  assume "lookup_path (JObj char) [''data'', ''name''] = None"
  then show "summary char ''characterName'' = Some (JStr ''Unknown'')"
    by (simp add: summary_def path_or_def)
next
  assume "lookup_path (JObj char) [''data'', ''resources'', ''pv''] = None"
  then show "summary char ''pv'' = Some zero_resource"
    by (simp add: summary_def path_or_def)
qed

theorem get_player_stats_summaries_witness:
  "snd (get_player_stats ''K1'' example_joined_db) = example_joined_db
   \<and> fst (get_player_stats ''K1'' example_joined_db) = Inr [summary example_snapshot]
   \<and> length [summary example_snapshot] = min (length [example_snapshot]) 100
   \<and> summary example_snapshot ''characterName'' = Some (JStr ''Gon'')
   \<and> summary example_snapshot ''pv''
       = Some (JObj [''current'' \<mapsto> JInt 7, ''max'' \<mapsto> JInt 10])
   \<and> summary (example_snapshot(''data'' \<mapsto> JObj Map.empty)) ''characterName''
       = Some (JStr ''Unknown'')
   \<and> summary (example_snapshot(''data'' \<mapsto> JObj Map.empty)) ''pv'' = Some zero_resource"
proof -
  have v: "summary example_snapshot ''characterName'' = Some (JStr ''Gon'')"
    "summary example_snapshot ''pv'' = Some (JObj [''current'' \<mapsto> JInt 7, ''max'' \<mapsto> JInt 10])"
    by (simp_all add: summary_def path_or_def example_snapshot_fields example_character_def)
  show ?thesis
    using get_player_stats_summaries
            [of "''K1''" example_joined_db "[summary example_snapshot]"
                "example_snapshot(''data'' \<mapsto> JObj Map.empty)"]
          v
    by (simp add: example_find_snapshots example_snapshot_readable)
qed

text \<open>
  The claim as it was stated fails on a campaign with 101 CampaignCharacters: the call
  returns 100 summaries, because the cursor is read with \<^verbatim>\<open>to_list(100)\<close>.
\<close>

theorem get_player_stats_counterexample:
  "length (find_many [(''campaignId'', ''K1'')] (campaign_characters example_crowded_db)) = 101
   \<and> summary_count (fst (get_player_stats ''K1'' example_crowded_db)) = Inr 100"
proof -
  have "list_all stats_readable (take 100 (map crowd_member [0..<101]))"
    by (simp add: list_all_iff take_map crowd_member_readable)
  then have "fst (get_player_stats ''K1'' example_crowded_db)
      = Inr (map summary (take 100 (map crowd_member [0..<101])))"
    by (simp add: get_player_stats_eq crowd_found)
  then show ?thesis
    by (simp add: summary_count_def crowd_found)
qed

section \<open>A campaign id carried by two documents\<close>

lemma example_twin_fields:
  "example_twin ''id'' = Some (JStr ''K1'')"
  "example_twin ''masterId'' = Some (JStr ''M2'')"
  "example_twin ''inviteCode'' = Some (JStr ''XYZ789'')"
  "example_twin ''players'' = Some (JList [])"
  "example_twin ''playerIds'' = Some (JList [])"
  by (simp_all add: example_twin_def campaign_dump_def)

lemma example_twin_find:
  "find_one [(''inviteCode'', ''XYZ789'')] (campaigns example_twin_db) = Some example_twin"
  "find_one [(''id'', ''K1'')] (campaigns example_twin_db) = Some example_campaign"
  "find_one [(''inviteCode'', ''XYZ789'')] (campaigns example_twin_joined_db) = Some example_twin"
  by (simp_all add: example_twin_db_def example_twin_joined_db_def find_one_def matches_def
      field_matches_def example_campaign_fields example_twin_fields
      example_joined_campaign_fields)

lemma example_twin_request_fields:
  "inviteCode example_twin_request = ''XYZ789''"
  "odiserId example_twin_request = ''U1''"
  "characterId example_twin_request = ''C1''"
  by (simp_all add: example_twin_request_def example_request_def)

lemma example_twin_nonempty: "example_twin \<noteq> Map.empty"
  using find_one_nonempty[OF example_twin_find(1)] .

lemma example_character_nonempty: "example_character \<noteq> Map.empty"
  using find_one_nonempty[OF example_find_character] .

lemma example_twin_join:
  "join_campaign example_env example_twin_request example_twin_db =
     (Inr (JObj [''success'' \<mapsto> JBool True, ''campaignId'' \<mapsto> JStr ''K1'',
                 ''characterId'' \<mapsto> JStr ''CC1'']),
      example_twin_joined_db)"
proof -
  have ch: "find_one [(''id'', ''C1'')] (characters example_twin_db) = Some example_character"
    using example_find_character by (simp add: example_twin_db_def)
  have pl: "new_player_dump example_env example_twin_request ''Gon'' = example_player"
    by (simp add: new_player_dump_def example_player_def example_twin_request_def)
  have ju: "join_update ''U1'' example_player ''t2'' example_campaign
              = Inr example_joined_campaign"
    by (simp add: join_update_def op_push_def op_set_def bind_err_def example_campaign_fields
        example_joined_campaign_def)
  have up: "update_one [(''id'', ''K1'')] (join_update ''U1'' example_player ''t2'')
              [example_campaign, example_twin] = Inr (1, [example_joined_campaign, example_twin])"
    using find_one_matches[OF example_find_campaign(1)] ju by simp
  have sn: "campaign_char_dump example_env ''K1'' example_twin_request example_character
              = example_snapshot"
    by (simp add: campaign_char_dump_def example_snapshot_def example_twin_request_def)
  have e: "cc_id example_env = ''CC1''" "campaign_updatedAt example_env = ''t2''"
    by (simp_all add: example_env_def)
  have cs: "campaigns (example_twin_db\<lparr>campaign_characters := x\<rparr>)
              = [example_campaign, example_twin]" for x
    by (simp add: example_twin_db_def)
  show ?thesis
    by (simp add: join_campaign_def example_twin_request_fields example_twin_find ch
        example_twin_nonempty example_character_nonempty example_twin_fields
        example_character_fields dict_get_def Let_def insert_one_def pl sn e cs up
        find_one_matches[OF example_find_campaign(1)] ju
        example_twin_joined_db_def)
       (simp add: example_twin_db_def example_db_def)
qed

lemma example_twin_join_again:
  "fst (join_campaign example_env2 example_twin_request example_twin_joined_db) =
     Inr (JObj [''success'' \<mapsto> JBool True, ''campaignId'' \<mapsto> JStr ''K1'',
                ''characterId'' \<mapsto> JStr ''CC2''])"
proof -
  have ch: "find_one [(''id'', ''C1'')] (characters example_twin_joined_db)
              = Some example_character"
    using example_find_character by (simp add: example_twin_joined_db_def example_twin_db_def)
  have m: "matches [(''id'', ''K1'')] example_joined_campaign"
    using find_one_matches[OF example_find_joined_campaign(1)] .
  have ju: "\<exists>d'. join_update ''U1'' p now example_joined_campaign = Inr d'" for p now
    by (simp add: join_update_def op_push_def op_set_def bind_err_def
        example_joined_campaign_fields)
  have up: "\<exists>cs. update_one [(''id'', ''K1'')] (join_update ''U1'' p now)
              [example_joined_campaign, example_twin] = Inr (1, cs)" for p now
    using m ju[of p now] by auto
  have cs: "campaigns (example_twin_joined_db\<lparr>campaign_characters := x\<rparr>)
              = [example_joined_campaign, example_twin]" for x
    by (simp add: example_twin_joined_db_def)
  have e: "cc_id example_env2 = ''CC2''"
    by (simp add: example_env2_def)
  obtain d' where u: "join_update ''U1''
       (new_player_dump example_env2 example_twin_request ''Gon'')
       (campaign_updatedAt example_env2) example_joined_campaign = Inr d'"
    using ju by blast
  show ?thesis
    by (simp add: join_campaign_def example_twin_request_fields example_twin_find ch
        example_twin_nonempty example_character_nonempty example_twin_fields
        example_character_fields dict_get_def Let_def insert_one_def e cs m u)
qed

text \<open>
  C1 as it was stated fails on such a store: the join by the invite code of the second
  campaign succeeds, but the update is addressed by id and reaches the first campaign;
  the campaign found by the invite code is as it was, with no player and no player id.
\<close>

theorem join_campaign_success_counterexample:
  "find_one [(''inviteCode'', inviteCode example_twin_request)] (campaigns example_twin_db)
     = Some example_twin
   \<and> fst (join_campaign example_env example_twin_request example_twin_db) =
       Inr (JObj [''success'' \<mapsto> JBool True, ''campaignId'' \<mapsto> JStr ''K1'',
                  ''characterId'' \<mapsto> JStr ''CC1''])
   \<and> find_one [(''inviteCode'', inviteCode example_twin_request)]
         (campaigns (snd (join_campaign example_env example_twin_request example_twin_db)))
       = Some example_twin
   \<and> example_twin ''players'' = Some (JList [])
   \<and> example_twin ''playerIds'' = Some (JList [])"
  by (simp add: example_twin_join example_twin_request_fields example_twin_find
      example_twin_fields)

text \<open>
  The last sentence of C4 as it was stated fails on the same store: the user's id was
  pushed to the other campaign, so the same join passes the third check again and
  succeeds a second time.
\<close>

theorem join_campaign_failure_order_counterexample:
  "fst (join_campaign example_env example_twin_request example_twin_db) =
     Inr (JObj [''success'' \<mapsto> JBool True, ''campaignId'' \<mapsto> JStr ''K1'',
                ''characterId'' \<mapsto> JStr ''CC1''])
   \<and> fst (join_campaign example_env2 example_twin_request
            (snd (join_campaign example_env example_twin_request example_twin_db))) =
     Inr (JObj [''success'' \<mapsto> JBool True, ''campaignId'' \<mapsto> JStr ''K1'',
                ''characterId'' \<mapsto> JStr ''CC2''])"
  by (simp add: example_twin_join example_twin_join_again)

text \<open>
  C7 as it was stated fails on the same store: \<^verbatim>\<open>delete_one\<close> removes the first of the
  two campaign documents and the second still matches the id.
\<close>

theorem delete_campaign_by_master_counterexample:
  "find_one [(''id'', ''K1'')] (campaigns example_twin_db) = Some example_campaign
   \<and> example_campaign ''masterId'' = Some (JStr ''M1'')
   \<and> fst (delete_campaign ''K1'' ''M1'' example_twin_db) =
       Inr (JObj [''message'' \<mapsto> JStr ''Campaign deleted successfully''])
   \<and> find_many [(''id'', ''K1'')] (campaigns (snd (delete_campaign ''K1'' ''M1'' example_twin_db)))
       = [example_twin]"
proof -
  have ne: "example_campaign \<noteq> Map.empty"
    using find_one_nonempty[OF example_find_campaign(1)] .
  have m: "matches [(''id'', ''K1'')] example_campaign" "matches [(''id'', ''K1'')] example_twin"
    by (simp_all add: matches_def field_matches_def example_campaign_fields example_twin_fields)
  have d: "delete_one [(''id'', ''K1'')] (campaigns example_twin_db) = [example_twin]"
    using m by (simp add: example_twin_db_def)
  show ?thesis
    using m by (simp add: delete_campaign_def example_twin_find ne example_campaign_fields d
        find_many_def)
qed

end
